theory Spec2Isabelle
  imports Complex_Main "HOL-Library.Char_ord" "HOL-Library.List_Lexorder" "HOL-Library.AList"
begin

section \<open>Data model\<close>

text \<open>
  The embedding follows \<^verbatim>\<open>ai_tutor/tools/storage.py\<close>, \<^verbatim>\<open>ai_tutor/tools/context.py\<close>,
  \<^verbatim>\<open>ai_tutor/tools/user_tools.py\<close> and \<^verbatim>\<open>ai_tutor/tutor_system.py\<close>.

  Conventions.
  \<^item> A Python \<^verbatim>\<open>dict\<close> that the code iterates over is an association list in insertion
    order; assignment \<^verbatim>\<open>d[k] = v\<close> is \<open>AList.update\<close> (replace in place, else append).
    A dict that is only indexed (\<^verbatim>\<open>mastery_levels\<close>) is a map.
  \<^item> A stored document is a record whose fields are options: \<open>None\<close> is an absent key,
    so \<^verbatim>\<open>k in d\<close> is \<open>field d \<noteq> None\<close> and \<^verbatim>\<open>d.get(k, v)\<close> is a case on the field.
    Where the code itself can write \<^verbatim>\<open>null\<close> under a key that is later tested with
    \<^verbatim>\<open>in\<close> or read with a default (the title, the two optional plan fields) the field
    is an option of an option: \<open>Some None\<close> is a key holding \<^verbatim>\<open>null\<close>.
  \<^item> Scores and mastery levels are Python floats; they are only stored, copied and
    compared, never computed with, and are modelled as \<open>real\<close>.
  \<^item> A quiz question inside a document is either the \<^verbatim>\<open>QuizQuestion\<close> object that a
    session's \<^verbatim>\<open>Quiz\<close> holds or the plain dict that JSON text holds. \<^verbatim>\<open>json.dump\<close> and
    \<^verbatim>\<open>json.dumps\<close> raise \<^verbatim>\<open>TypeError\<close> on the former, and \<^verbatim>\<open>json.load\<close> and
    \<^verbatim>\<open>json.loads\<close> yield only the latter.
  \<^item> On a document that it can encode, \<^verbatim>\<open>json.dump\<close> followed by \<^verbatim>\<open>json.load\<close> is taken
    to return the document written (answer keys are kept in the form JSON gives them,
    as strings).
  \<^item> Timestamps are strings, compared as Python compares \<^verbatim>\<open>str\<close>: lexicographically.
\<close>

record StudyPlan =
  topics :: "string list"
  learning_path :: "string list"
  estimated_time :: "(string \<times> string) list option"
  prerequisites :: "(string \<times> string list) list option"

record QuizQuestion =
  question_text :: string
  correct_answer :: string
  explanation :: string
  difficulty :: string
  options :: "string list option"

datatype question_doc = QuestionObject QuizQuestion | QuestionDict QuizQuestion

fun question_of :: "question_doc \<Rightarrow> QuizQuestion" where
  "question_of (QuestionObject q) = q"
| "question_of (QuestionDict q) = q"

fun is_plain :: "question_doc \<Rightarrow> bool" where
  "is_plain (QuestionObject q) = False"
| "is_plain (QuestionDict q) = True"

record Quiz =
  topic :: string
  questions :: "QuizQuestion list"
  time_limit :: string

text \<open>An entry of \<^verbatim>\<open>TutorContext.quiz_results\<close>: a dict with the keys
  \<^verbatim>\<open>'quiz'\<close> and \<^verbatim>\<open>'user_answers'\<close>.\<close>

record quiz_entry =
  entry_quiz :: "Quiz option"
  entry_user_answers :: "(string \<times> string) list option"

subsection \<open>The persisted record (spec section 6)\<close>

record progress_doc =
  mastery_level :: "real option"
  completed :: "bool option"
  last_studied :: "string option"

record results_doc =
  answers :: "(string \<times> string) list option"
  score :: "real option"
  feedback :: "(string \<times> string) list option"
  results_created_at :: "string option"

record quiz_doc =
  quiz_topic :: "string option"
  quiz_questions :: "question_doc list option"
  quiz_time_limit :: "string option"
  quiz_created_at :: "string option"
  results :: "results_doc option"

record plan_doc =
  plan_topics :: "string list option"
  plan_learning_path :: "string list option"
  plan_estimated_time :: "(string \<times> string) list option option"
  plan_prerequisites :: "(string \<times> string list) list option option"
  plan_created_at :: "string option"
  plan_updated_at :: "string option"

record objective_doc =
  title :: "string option option"
  description :: "string option option"
  created_at :: "string option"
  completed_at :: "string option"
  study_plan_doc :: "plan_doc option"
  topic_progress :: "(string \<times> progress_doc) list option"
  quizzes :: "(string \<times> quiz_doc) list option"

record user_data =
  data_user_id :: "string option"
  data_created_at :: "string option"
  learning_objectives :: "(string \<times> objective_doc) list option"
  last_updated :: "string option"

text \<open>The empty dict \<^verbatim>\<open>{}\<close>.\<close>

definition empty_user_data :: user_data where
  "empty_user_data =
     \<lparr>data_user_id = None, data_created_at = None, learning_objectives = None,
      last_updated = None\<rparr>"

definition empty_plan_doc :: plan_doc where
  "empty_plan_doc =
     \<lparr>plan_topics = None, plan_learning_path = None, plan_estimated_time = None,
      plan_prerequisites = None, plan_created_at = None, plan_updated_at = None\<rparr>"

subsection \<open>The relational backend's tables\<close>

text \<open>One record per table of \<^verbatim>\<open>_init_sqlite_db\<close>; a table is the list of its rows in
  rowid order. Columns that hold \<^verbatim>\<open>json.dumps\<close> text hold the value itself. The column
  \<^verbatim>\<open>users.name\<close> is never written and is left out.\<close>

record users_row =
  users_user_id :: string
  users_created_at :: string

record learning_objectives_row =
  lo_objective_id :: string
  lo_user_id :: string
  lo_title :: "string option"
  lo_description :: "string option"
  lo_created_at :: string
  lo_completed_at :: "string option"

record study_plans_row =
  sp_plan_id :: string
  sp_objective_id :: string
  sp_topics :: "string list"
  sp_learning_path :: "string list"
  sp_estimated_time :: "(string \<times> string) list option"
  sp_prerequisites :: "(string \<times> string list) list option"
  sp_created_at :: string
  sp_updated_at :: string

record topic_progress_row =
  tp_progress_id :: string
  tp_user_id :: string
  tp_objective_id :: string
  tp_topic :: string
  tp_mastery_level :: real
  tp_completed :: bool
  tp_last_studied :: string

record quizzes_row =
  qz_quiz_id :: string
  qz_user_id :: string
  qz_objective_id :: string
  qz_topic :: string
  qz_questions :: "QuizQuestion list"
  qz_created_at :: string

record quiz_results_row =
  qr_result_id :: string
  qr_quiz_id :: string
  qr_user_id :: string
  qr_answers :: "(string \<times> string) list"
  qr_score :: real
  qr_feedback :: "(string \<times> string) list"
  qr_created_at :: string

record database =
  users :: "users_row list"
  learning_objectives_tbl :: "learning_objectives_row list"
  study_plans :: "study_plans_row list"
  topic_progress_tbl :: "topic_progress_row list"
  quizzes_tbl :: "quizzes_row list"
  quiz_results_tbl :: "quiz_results_row list"

subsection \<open>The store and its environment\<close>

text \<open>What a user's file holds: a document that \<^verbatim>\<open>json.load\<close> parses, or text that it
  rejects (what is left when \<^verbatim>\<open>json.dump\<close> raises after \<^verbatim>\<open>open(path, 'w')\<close> has
  truncated the file).\<close>

datatype file_content = Document user_data | Unparseable

text \<open>\<^verbatim>\<open>UserProgressStore\<close> together with the contents of its storage directory:
  the user files by path, and the database.\<close>

record UserProgressStore =
  use_sqlite :: bool
  files :: "string \<rightharpoonup> file_content"
  db :: database

text \<open>What the surroundings contribute to one operation: the value of
  \<^verbatim>\<open>str(uuid.uuid4())\<close>, of \<^verbatim>\<open>time.strftime(...)\<close>, of \<^verbatim>\<open>datetime.now().isoformat()\<close>
  (one reading per operation), and whether the file or database access raises: not at
  all, before anything is written, or after the file has been opened for writing.\<close>

datatype io_outcome = IoOk | IoRaisesBeforeWrite | IoRaisesDuringWrite

record env =
  env_uuid :: string
  env_strftime :: string
  env_isoformat :: string
  env_io :: io_outcome

section \<open>Persistent store (storage.py)\<close>

definition get_user_json_path :: "string \<Rightarrow> string" where
  "get_user_json_path user_id = ''user_'' @ user_id @ ''.json''"

definition get_default :: "'a option \<Rightarrow> 'a \<Rightarrow> 'a" where
  "get_default field d = (case field of None \<Rightarrow> d | Some v \<Rightarrow> v)"

text \<open>Whether \<^verbatim>\<open>json\<close> can encode a document: every other value of the record is a
  string, a number, a boolean, \<^verbatim>\<open>None\<close>, a list or a dict, so it can unless a quiz holds a
  \<^verbatim>\<open>QuizQuestion\<close> object.\<close>

definition json_serializable :: "user_data \<Rightarrow> bool" where
  "json_serializable data =
     list_all (\<lambda>(obj_id, obj_data).
        list_all (\<lambda>(quiz_id, quiz_data).
           list_all is_plain (get_default (quiz_questions quiz_data) []))
          (get_default (quizzes obj_data) []))
       (get_default (learning_objectives data) [])"

text \<open>\<^verbatim>\<open>_save_to_json\<close>. \<^verbatim>\<open>open(path, 'w')\<close> truncates the file; when \<^verbatim>\<open>json.dump\<close> then
  raises, on a value it cannot encode or on a failing write, the file is left with text
  that does not parse and the result is \<^verbatim>\<open>False\<close>.\<close>

definition save_to_json ::
  "env \<Rightarrow> UserProgressStore \<Rightarrow> string \<Rightarrow> user_data \<Rightarrow> bool \<times> UserProgressStore" where
  "save_to_json e st user_id data =
     (let data' = data\<lparr>last_updated := Some (env_isoformat e)\<rparr>;
          file_path = get_user_json_path user_id
      in case env_io e of
           IoOk \<Rightarrow>
             (if json_serializable data'
              then (True, st\<lparr>files := (files st)(file_path \<mapsto> Document data')\<rparr>)
              else (False, st\<lparr>files := (files st)(file_path \<mapsto> Unparseable)\<rparr>))
         | IoRaisesBeforeWrite \<Rightarrow> (False, st)
         | IoRaisesDuringWrite \<Rightarrow> (False, st\<lparr>files := (files st)(file_path \<mapsto> Unparseable)\<rparr>))"

definition load_from_json :: "env \<Rightarrow> UserProgressStore \<Rightarrow> string \<Rightarrow> user_data" where
  "load_from_json e st user_id =
     (case files st (get_user_json_path user_id) of
        None \<Rightarrow> empty_user_data
      | Some content \<Rightarrow>
          (case env_io e of
             IoOk \<Rightarrow> (case content of Document d \<Rightarrow> d | Unparseable \<Rightarrow> empty_user_data)
           | _ \<Rightarrow> empty_user_data))"

text \<open>\<^verbatim>\<open>INSERT OR REPLACE\<close> on a table with a text primary key: the row with the same key,
  if any, is deleted and the new row gets a fresh rowid, so it comes last.\<close>

definition insert_or_replace :: "('r \<Rightarrow> string) \<Rightarrow> 'r \<Rightarrow> 'r list \<Rightarrow> 'r list" where
  "insert_or_replace key row tbl = filter (\<lambda>r. key r \<noteq> key row) tbl @ [row]"

definition save_quiz_row ::
  "env \<Rightarrow> string \<Rightarrow> string \<Rightarrow> string \<times> quiz_doc \<Rightarrow> database \<Rightarrow> database" where
  "save_quiz_row e user_id obj_id entry d =
     (case entry of (quiz_id, quiz_data) \<Rightarrow>
        (let d1 = d\<lparr>quizzes_tbl := insert_or_replace qz_quiz_id
                     \<lparr>qz_quiz_id = quiz_id, qz_user_id = user_id, qz_objective_id = obj_id,
                      qz_topic = get_default (quiz_topic quiz_data) [],
                      qz_questions = map question_of (get_default (quiz_questions quiz_data) []),
                      qz_created_at = get_default (quiz_created_at quiz_data) (env_isoformat e)\<rparr>
                     (quizzes_tbl d)\<rparr>
         in case results quiz_data of
              None \<Rightarrow> d1
            | Some result \<Rightarrow>
                d1\<lparr>quiz_results_tbl := insert_or_replace qr_result_id
                     \<lparr>qr_result_id = quiz_id @ ''_result'', qr_quiz_id = quiz_id,
                      qr_user_id = user_id,
                      qr_answers = get_default (answers result) [],
                      qr_score = get_default (score result) 0,
                      qr_feedback = get_default (feedback result) [],
                      qr_created_at = get_default (results_created_at result) (env_isoformat e)\<rparr>
                     (quiz_results_tbl d1)\<rparr>))"

definition save_progress_row ::
  "env \<Rightarrow> string \<Rightarrow> string \<Rightarrow> string \<times> progress_doc \<Rightarrow> database \<Rightarrow> database" where
  "save_progress_row e user_id obj_id entry d =
     (case entry of (topic_name, progress) \<Rightarrow>
        d\<lparr>topic_progress_tbl := insert_or_replace tp_progress_id
            \<lparr>tp_progress_id = user_id @ ''_'' @ obj_id @ ''_'' @ topic_name,
             tp_user_id = user_id, tp_objective_id = obj_id, tp_topic = topic_name,
             tp_mastery_level = get_default (mastery_level progress) 0,
             tp_completed = get_default (completed progress) False,
             tp_last_studied = get_default (last_studied progress) (env_isoformat e)\<rparr>
            (topic_progress_tbl d)\<rparr>)"

definition save_objective_rows ::
  "env \<Rightarrow> string \<Rightarrow> string \<times> objective_doc \<Rightarrow> database \<Rightarrow> database" where
  "save_objective_rows e user_id entry d =
     (case entry of (obj_id, obj_data) \<Rightarrow>
        (let d1 = d\<lparr>learning_objectives_tbl := insert_or_replace lo_objective_id
                     \<lparr>lo_objective_id = obj_id, lo_user_id = user_id,
                      lo_title = get_default (title obj_data) (Some []),
                      lo_description = get_default (description obj_data) (Some []),
                      lo_created_at = get_default (created_at obj_data) (env_isoformat e),
                      lo_completed_at = completed_at obj_data\<rparr>
                     (learning_objectives_tbl d)\<rparr>;
             d2 = (case study_plan_doc obj_data of
                     None \<Rightarrow> d1
                   | Some plan \<Rightarrow>
                       d1\<lparr>study_plans := insert_or_replace sp_plan_id
                            \<lparr>sp_plan_id = obj_id @ ''_plan'', sp_objective_id = obj_id,
                             sp_topics = get_default (plan_topics plan) [],
                             sp_learning_path = get_default (plan_learning_path plan) [],
                             sp_estimated_time = get_default (plan_estimated_time plan) (Some []),
                             sp_prerequisites = get_default (plan_prerequisites plan) (Some []),
                             sp_created_at = get_default (plan_created_at plan) (env_isoformat e),
                             sp_updated_at = env_isoformat e\<rparr>
                            (study_plans d1)\<rparr>);
             d3 = (case topic_progress obj_data of
                     None \<Rightarrow> d2
                   | Some tp \<Rightarrow> fold (save_progress_row e user_id obj_id) tp d2)
         in case quizzes obj_data of
              None \<Rightarrow> d3
            | Some qs \<Rightarrow> fold (save_quiz_row e user_id obj_id) qs d3))"

text \<open>\<^verbatim>\<open>_save_to_sqlite\<close>. An exception anywhere, from the database or from
  \<^verbatim>\<open>json.dumps\<close> of a quiz's questions, leaves the transaction uncommitted: the database
  is as it was and the result is \<^verbatim>\<open>False\<close>.\<close>

definition save_to_sqlite ::
  "env \<Rightarrow> UserProgressStore \<Rightarrow> string \<Rightarrow> user_data \<Rightarrow> bool \<times> UserProgressStore" where
  "save_to_sqlite e st user_id data =
     (case env_io e of
        IoOk \<Rightarrow>
          (let d0 = db st;
               d1 = (if filter (\<lambda>r. users_user_id r = user_id) (users d0) = []
                     then d0\<lparr>users := users d0 @
                            [\<lparr>users_user_id = user_id, users_created_at = env_isoformat e\<rparr>]\<rparr>
                     else d0);
               d2 = (case learning_objectives data of
                       None \<Rightarrow> d1
                     | Some objs \<Rightarrow> fold (save_objective_rows e user_id) objs d1)
           in if json_serializable data then (True, st\<lparr>db := d2\<rparr>) else (False, st))
      | _ \<Rightarrow> (False, st))"

definition save_user_progress ::
  "env \<Rightarrow> UserProgressStore \<Rightarrow> string \<Rightarrow> user_data \<Rightarrow> bool \<times> UserProgressStore" where
  "save_user_progress e st user_id data =
     (if use_sqlite st then save_to_sqlite e st user_id data
      else save_to_json e st user_id data)"

definition load_quiz_doc :: "database \<Rightarrow> quizzes_row \<Rightarrow> string \<times> quiz_doc" where
  "load_quiz_doc d q =
     (qz_quiz_id q,
      \<lparr>quiz_topic = Some (qz_topic q),
       quiz_questions = Some (map QuestionDict (qz_questions q)),
       quiz_time_limit = None, quiz_created_at = Some (qz_created_at q),
       results =
         (case filter (\<lambda>r. qr_quiz_id r = qz_quiz_id q) (quiz_results_tbl d) of
            [] \<Rightarrow> None
          | r # _ \<Rightarrow>
              Some \<lparr>answers = Some (qr_answers r), score = Some (qr_score r),
                    feedback = Some (qr_feedback r),
                    results_created_at = Some (qr_created_at r)\<rparr>)\<rparr>)"

definition load_progress_doc :: "topic_progress_row \<Rightarrow> string \<times> progress_doc" where
  "load_progress_doc r =
     (tp_topic r,
      \<lparr>mastery_level = Some (tp_mastery_level r), completed = Some (tp_completed r),
       last_studied = Some (tp_last_studied r)\<rparr>)"

definition dict_of :: "(string \<times> 'v) list \<Rightarrow> (string \<times> 'v) list" where
  "dict_of kvs = fold (\<lambda>(k, v) d. AList.update k v d) kvs []"

definition load_objective_doc ::
  "database \<Rightarrow> string \<Rightarrow> learning_objectives_row \<Rightarrow> string \<times> objective_doc" where
  "load_objective_doc d user_id obj =
     (let obj_id = lo_objective_id obj in
      (obj_id,
       \<lparr>title = Some (lo_title obj), description = Some (lo_description obj),
        created_at = Some (lo_created_at obj), completed_at = lo_completed_at obj,
        study_plan_doc =
          (case filter (\<lambda>p. sp_objective_id p = obj_id) (study_plans d) of
             [] \<Rightarrow> None
           | p # _ \<Rightarrow>
               Some \<lparr>plan_topics = Some (sp_topics p),
                     plan_learning_path = Some (sp_learning_path p),
                     plan_estimated_time = Some (sp_estimated_time p),
                     plan_prerequisites = Some (sp_prerequisites p),
                     plan_created_at = Some (sp_created_at p),
                     plan_updated_at = Some (sp_updated_at p)\<rparr>),
        topic_progress =
          Some (dict_of (map load_progress_doc
            (filter (\<lambda>r. tp_user_id r = user_id \<and> tp_objective_id r = obj_id)
               (topic_progress_tbl d)))),
        quizzes =
          Some (dict_of (map (load_quiz_doc d)
            (filter (\<lambda>q. qz_user_id q = user_id \<and> qz_objective_id q = obj_id)
               (quizzes_tbl d))))\<rparr>))"

definition load_from_sqlite :: "env \<Rightarrow> UserProgressStore \<Rightarrow> string \<Rightarrow> user_data" where
  "load_from_sqlite e st user_id =
     (case env_io e of
        IoOk \<Rightarrow>
          (case filter (\<lambda>r. users_user_id r = user_id) (users (db st)) of
             [] \<Rightarrow> empty_user_data
           | user # _ \<Rightarrow>
               \<lparr>data_user_id = Some user_id,
                data_created_at = Some (users_created_at user),
                learning_objectives =
                  Some (dict_of (map (load_objective_doc (db st) user_id)
                    (filter (\<lambda>r. lo_user_id r = user_id) (learning_objectives_tbl (db st))))),
                last_updated = None\<rparr>)
      | _ \<Rightarrow> empty_user_data)"

definition load_user_progress :: "env \<Rightarrow> UserProgressStore \<Rightarrow> string \<Rightarrow> user_data" where
  "load_user_progress e st user_id =
     (if use_sqlite st then load_from_sqlite e st user_id
      else load_from_json e st user_id)"

section \<open>Session state (context.py)\<close>

text \<open>\<^verbatim>\<open>TutorContext\<close>. The store handle \<^verbatim>\<open>_progress_store\<close> is carried with the
  contents of its storage directory, so that what an operation persists is part of the
  state it returns. The working dict \<^verbatim>\<open>learning_session\<close> and the constructor arguments
  \<^verbatim>\<open>storage_dir\<close> and \<^verbatim>\<open>use_sqlite\<close> (which only select the store) are left out.\<close>

record TutorContext =
  user_id :: string
  learning_objective :: "string option"
  study_plan :: "StudyPlan option"
  current_topic :: "string option"
  vector_store_id :: "string option"
  mastery_levels :: "string \<rightharpoonup> real"
  completed_topics :: "string list"
  current_quiz :: "Quiz option"
  current_user_answers :: "(string \<times> string) list option"
  quiz_results :: "(string \<times> quiz_entry) list"
  objective_id :: "string option"
  progress_store :: "UserProgressStore option"

text \<open>\<^verbatim>\<open>TutorContext(user_id=..., storage_dir=..., use_sqlite=...)\<close>: every other field
  at its default; \<^verbatim>\<open>__post_init__\<close> opens the store and, with no learning objective,
  assigns no objective id.\<close>

definition new_TutorContext :: "string \<Rightarrow> UserProgressStore \<Rightarrow> TutorContext" where
  "new_TutorContext uid st =
     \<lparr>user_id = uid, learning_objective = None, study_plan = None, current_topic = None,
      vector_store_id = None, mastery_levels = Map.empty, completed_topics = [],
      current_quiz = None, current_user_answers = None, quiz_results = [],
      objective_id = None, progress_store = Some st\<rparr>"

text \<open>Python truthiness of an optional string: \<^verbatim>\<open>None\<close> and \<^verbatim>\<open>''\<close> are false.\<close>

definition truthy :: "string option \<Rightarrow> bool" where
  "truthy s = (case s of None \<Rightarrow> False | Some v \<Rightarrow> v \<noteq> [])"

definition study_plan_data :: "StudyPlan option \<Rightarrow> plan_doc" where
  "study_plan_data sp =
     (case sp of
        None \<Rightarrow> empty_plan_doc
      | Some p \<Rightarrow>
          \<lparr>plan_topics = Some (topics p), plan_learning_path = Some (learning_path p),
           plan_estimated_time = Some (estimated_time p),
           plan_prerequisites = Some (prerequisites p),
           plan_created_at = None, plan_updated_at = None\<rparr>)"

definition topic_progress_data :: "TutorContext \<Rightarrow> (string \<times> progress_doc) list" where
  "topic_progress_data ctx =
     fold (\<lambda>t d. AList.update t
             \<lparr>mastery_level = Some (get_default (mastery_levels ctx t) 0),
              completed = Some (t \<in> set (completed_topics ctx)),
              last_studied = None\<rparr> d)
       (case study_plan ctx of None \<Rightarrow> [] | Some p \<Rightarrow> topics p) []"

definition quizzes_data :: "TutorContext \<Rightarrow> (string \<times> quiz_doc) list" where
  "quizzes_data ctx =
     fold (\<lambda>(t, result) d.
             case entry_quiz result of
               None \<Rightarrow> d
             | Some q \<Rightarrow>
                 AList.update (user_id ctx @ ''_'' @ t @ ''_quiz'')
                   \<lparr>quiz_topic = Some t,
                    quiz_questions = Some (map QuestionObject (questions q)),
                    quiz_time_limit = None, quiz_created_at = None,
                    results = Some \<lparr>answers = Some (get_default (entry_user_answers result) []),
                                    score = mastery_levels ctx t, feedback = None,
                                    results_created_at = None\<rparr>\<rparr> d)
       (quiz_results ctx) []"

definition objective_data :: "env \<Rightarrow> TutorContext \<Rightarrow> objective_doc" where
  "objective_data e ctx =
     \<lparr>title = Some (learning_objective ctx),
      description = Some (learning_objective ctx),
      created_at = Some (env_strftime e),
      completed_at = None,
      study_plan_doc = Some (study_plan_data (study_plan ctx)),
      topic_progress = Some (topic_progress_data ctx),
      quizzes = Some (quizzes_data ctx)\<rparr>"

text \<open>Lines 77 to 138 of \<^verbatim>\<open>save_progress\<close>: build the document and hand it to the store.\<close>

definition write_progress ::
  "env \<Rightarrow> UserProgressStore \<Rightarrow> string \<Rightarrow> TutorContext \<Rightarrow> bool \<times> TutorContext" where
  "write_progress e st obj_id ctx =
     (let user_data =
            empty_user_data\<lparr>learning_objectives := Some [(obj_id, objective_data e ctx)]\<rparr>
      in case save_user_progress e st (user_id ctx) user_data of
           (ok, st') \<Rightarrow> (ok, ctx\<lparr>progress_store := Some st'\<rparr>))"

definition save_progress :: "env \<Rightarrow> TutorContext \<Rightarrow> bool \<times> TutorContext" where
  "save_progress e ctx =
     (case progress_store ctx of
        None \<Rightarrow> (False, ctx)
      | Some st \<Rightarrow>
          (if \<not> truthy (objective_id ctx) \<and> truthy (learning_objective ctx)
           then write_progress e st (env_uuid e) (ctx\<lparr>objective_id := Some (env_uuid e)\<rparr>)
           else if \<not> truthy (objective_id ctx)
           then (False, ctx)
           else write_progress e st (get_default (objective_id ctx) []) ctx))"

text \<open>\<^verbatim>\<open>sorted(items, key=..., reverse=True)\<close>: Python reverses, sorts stably in
  ascending order and reverses again.\<close>

definition sorted_objectives ::
  "(string \<times> objective_doc) list \<Rightarrow> (string \<times> objective_doc) list" where
  "sorted_objectives items =
     rev (sort_key (\<lambda>x. get_default (created_at (snd x)) []) (rev items))"

definition load_topic_progress ::
  "string \<times> progress_doc \<Rightarrow> TutorContext \<Rightarrow> TutorContext" where
  "load_topic_progress entry ctx =
     (case entry of (t, progress) \<Rightarrow>
        (let ctx1 = ctx\<lparr>mastery_levels :=
                      (mastery_levels ctx)(t \<mapsto> get_default (mastery_level progress) 0)\<rparr>
         in if get_default (completed progress) False
            then ctx1\<lparr>completed_topics := completed_topics ctx1 @ [t]\<rparr>
            else ctx1))"

definition load_quiz :: "string \<times> quiz_doc \<Rightarrow> TutorContext \<Rightarrow> TutorContext" where
  "load_quiz entry ctx =
     (case entry of (quiz_id, quiz_data) \<Rightarrow>
        (let t = get_default (quiz_topic quiz_data) []
         in if t \<noteq> [] \<and> results quiz_data \<noteq> None
            then ctx\<lparr>quiz_results := AList.update t
                   \<lparr>entry_quiz = Some
                      \<lparr>topic = t,
                       questions = map question_of
                                     (get_default (quiz_questions quiz_data) []),
                       time_limit = get_default (quiz_time_limit quiz_data) ''10 minutes''\<rparr>,
                    entry_user_answers = Some
                      (case results quiz_data of
                         None \<Rightarrow> []
                       | Some r \<Rightarrow> get_default (answers r) [])\<rparr>
                   (quiz_results ctx)\<rparr>
            else ctx))"

definition load_progress :: "env \<Rightarrow> TutorContext \<Rightarrow> bool \<times> TutorContext" where
  "load_progress e ctx =
     (case progress_store ctx of
        None \<Rightarrow> (False, ctx)
      | Some st \<Rightarrow>
          (let user_data = load_user_progress e st (user_id ctx)
           in if user_data = empty_user_data
                 \<or> get_default (learning_objectives user_data) [] = []
              then (False, ctx)
              else
                (case sorted_objectives (get_default (learning_objectives user_data) []) of
                   [] \<Rightarrow> (False, ctx)
                 | (obj_id, obj_data) # _ \<Rightarrow>
                     (let ctx1 = ctx\<lparr>objective_id := Some obj_id,
                                       learning_objective :=
                                         get_default (title obj_data) (Some [])\<rparr>
                      in case
                           (case study_plan_doc obj_data of
                              None \<Rightarrow> Some ctx1
                            | Some plan \<Rightarrow>
                                (case (plan_topics plan, plan_learning_path plan,
                                       plan_estimated_time plan, plan_prerequisites plan) of
                                   (Some ts, Some lp, Some et, Some pr) \<Rightarrow>
                                     Some (ctx1\<lparr>study_plan := Some
                                       \<lparr>topics = ts, learning_path = lp,
                                        estimated_time = et, prerequisites = pr\<rparr>\<rparr>)
                                 | _ \<Rightarrow> None))
                         of
                           None \<Rightarrow> (False, ctx1)
                         | Some ctx2 \<Rightarrow>
                             (let ctx3 = fold load_topic_progress
                                           (get_default (topic_progress obj_data) []) ctx2;
                                  ctx4 = fold load_quiz
                                           (get_default (quizzes obj_data) []) ctx3
                              in (True, ctx4))))))"

definition create_default_study_plan :: "TutorContext \<Rightarrow> TutorContext" where
  "create_default_study_plan ctx =
     (let default_topics = [''Introduction'', ''Key Concepts'', ''Applications'',
                            ''Advanced Topics'']
      in ctx\<lparr>study_plan := Some
           \<lparr>topics = default_topics, learning_path = default_topics,
            estimated_time = Some (map (\<lambda>t. (t, ''30 minutes'')) default_topics),
            prerequisites = Some []\<rparr>\<rparr>)"

definition store_quiz_answers ::
  "env \<Rightarrow> TutorContext \<Rightarrow> Quiz \<Rightarrow> (string \<times> string) list \<Rightarrow> TutorContext" where
  "store_quiz_answers e ctx q user_answers =
     (let ctx1 = ctx\<lparr>current_quiz := Some q, current_user_answers := Some user_answers,
                       current_topic := Some (topic q)\<rparr>;
          ctx2 = (if topic q \<noteq> []
                  then ctx1\<lparr>quiz_results := AList.update (topic q)
                         \<lparr>entry_quiz = Some q, entry_user_answers = Some user_answers\<rparr>
                         (quiz_results ctx1)\<rparr>
                  else ctx1)
      in snd (save_progress e ctx2))"

definition update_mastery_level ::
  "env \<Rightarrow> TutorContext \<Rightarrow> string \<Rightarrow> real \<Rightarrow> bool \<Rightarrow> TutorContext" where
  "update_mastery_level e ctx t level is_completed =
     (let ctx1 = ctx\<lparr>mastery_levels := (mastery_levels ctx)(t \<mapsto> level)\<rparr>;
          ctx2 = (if is_completed \<and> t \<notin> set (completed_topics ctx1)
                  then ctx1\<lparr>completed_topics := completed_topics ctx1 @ [t]\<rparr>
                  else ctx1)
      in snd (save_progress e ctx2))"

text \<open>The store is read and written with the same environment: one outcome per
  operation.\<close>

definition mark_learning_complete :: "env \<Rightarrow> TutorContext \<Rightarrow> TutorContext" where
  "mark_learning_complete e ctx =
     (case progress_store ctx of
        None \<Rightarrow> ctx
      | Some st \<Rightarrow>
          (if \<not> truthy (objective_id ctx) then ctx
           else
             (let obj_id = get_default (objective_id ctx) [];
                  user_data = load_user_progress e st (user_id ctx)
              in case learning_objectives user_data of
                   None \<Rightarrow> ctx
                 | Some objs \<Rightarrow>
                     (case map_of objs obj_id of
                        None \<Rightarrow> ctx
                      | Some obj_data \<Rightarrow>
                          (case save_user_progress e st (user_id ctx)
                                  (user_data\<lparr>learning_objectives := Some
                                     (AList.update obj_id
                                        (obj_data\<lparr>completed_at := Some (env_strftime e)\<rparr>)
                                        objs)\<rparr>) of
                             (ok, st') \<Rightarrow> ctx\<lparr>progress_store := Some st'\<rparr>)))))"

section \<open>Agent tools (user_tools.py)\<close>

text \<open>\<^verbatim>\<open>save_study_plan\<close>: the result is \<open>True\<close> for the message "saved successfully"
  and \<open>False\<close> for "Failed to save study plan".\<close>

definition save_study_plan ::
  "env \<Rightarrow> TutorContext \<Rightarrow> string \<Rightarrow> string list \<Rightarrow> string list \<Rightarrow> (string \<times> string) list \<Rightarrow>
   (string \<times> string list) list option \<Rightarrow> bool \<times> TutorContext" where
  "save_study_plan e ctx objective ts path est prereqs =
     (let ctx1 = ctx\<lparr>learning_objective := Some objective\<rparr>;
          ctx2 = ctx1\<lparr>study_plan := Some
                   \<lparr>topics = ts, learning_path = path, estimated_time = Some est,
                    prerequisites = Some (get_default prereqs [])\<rparr>\<rparr>
      in save_progress e ctx2)"

text \<open>\<^verbatim>\<open>save_quiz_results\<close>: the first component is the flag \<^verbatim>\<open>completed\<close> that the
  returned message reports.\<close>

definition save_quiz_results ::
  "env \<Rightarrow> TutorContext \<Rightarrow> string \<Rightarrow> real \<Rightarrow> string list \<Rightarrow> bool \<times> TutorContext" where
  "save_quiz_results e ctx t quiz_score quiz_feedback =
     (let is_completed = (quiz_score \<ge> 0.7)
      in (is_completed, update_mastery_level e ctx t quiz_score is_completed))"

section \<open>Handoff orchestration (tutor_system.py)\<close>

text \<open>The agent runner is a collaborator: \<^verbatim>\<open>Runner.run(agent, input, context, max_turns)\<close>
  is a parameter. It returns a result or raises, and the tools it calls may change the
  context. An agent's identity \<^verbatim>\<open>id(agent)\<close> is the value of type \<open>'a\<close> itself.
  \<open>result_repr\<close> is the text that \<^verbatim>\<open>str\<close> of a container shows for the result.\<close>

record 'a HandoffInfo =
  target_agent :: 'a
  handoff_message :: string

record 'a RunResult =
  result_repr :: string
  handoff_info :: "'a HandoffInfo option"

datatype run_error = RunnerRaised | ValueError

type_synonym 'a runner =
  "'a \<Rightarrow> string \<Rightarrow> nat \<Rightarrow> TutorContext \<Rightarrow> (run_error + 'a RunResult) \<times> TutorContext"

record 'a all_results =
  initial_result :: "'a RunResult option"
  handoff_results :: "'a RunResult list"

text \<open>\<^verbatim>\<open>TutorSystem.__init__\<close>: a new context for the user, then \<^verbatim>\<open>load_progress\<close>,
  whose result is ignored.\<close>

definition new_TutorSystem :: "env \<Rightarrow> string \<Rightarrow> UserProgressStore \<Rightarrow> TutorContext" where
  "new_TutorSystem e uid st = snd (load_progress e (new_TutorContext uid st))"

text \<open>A fresh load of the progress of the user of \<open>ctx\<close>: a new session over the storage
  that \<open>ctx\<close> has written to.\<close>

definition fresh_load :: "env \<Rightarrow> TutorContext \<Rightarrow> bool \<times> TutorContext" where
  "fresh_load e ctx =
     (case progress_store ctx of
        None \<Rightarrow> (False, ctx)
      | Some st \<Rightarrow> load_progress e (new_TutorContext (user_id ctx) st))"

text \<open>The \<^verbatim>\<open>while\<close> loop of \<^verbatim>\<open>process_agent_handoff_chain\<close>. Nothing bounds the number
  of different agents a chain may name, so the loop need not end: \<open>None\<close> is a run that
  does not return.\<close>

partial_function (option) handoff_loop ::
  "'a runner \<Rightarrow> nat \<Rightarrow> 'a RunResult option \<Rightarrow> 'a set \<Rightarrow> 'a RunResult list \<Rightarrow> TutorContext \<Rightarrow>
   ((run_error + 'a RunResult list) \<times> TutorContext) option" where
  "handoff_loop run max_turns current_result agent_ids_seen acc ctx =
     (case current_result of
        None \<Rightarrow> Some (Inr acc, ctx)
      | Some cur \<Rightarrow>
          (case handoff_info cur of
             None \<Rightarrow> Some (Inr acc, ctx)
           | Some h \<Rightarrow>
               (if target_agent h \<in> agent_ids_seen then Some (Inr acc, ctx)
                else
                  (case run (target_agent h) (handoff_message h) max_turns ctx of
                     (Inl err, ctx') \<Rightarrow> Some (Inl err, ctx')
                   | (Inr next_result, ctx') \<Rightarrow>
                       handoff_loop run max_turns (Some next_result)
                         (insert (target_agent h) agent_ids_seen)
                         (acc @ [next_result]) ctx'))))"

definition process_agent_handoff_chain ::
  "'a runner \<Rightarrow> nat \<Rightarrow> 'a RunResult option \<Rightarrow> TutorContext \<Rightarrow>
   ((run_error + 'a all_results) \<times> TutorContext) option" where
  "process_agent_handoff_chain run max_turns initial ctx =
     (case handoff_loop run max_turns initial {} [] ctx of
        None \<Rightarrow> None
      | Some (Inl err, ctx') \<Rightarrow> Some (Inl err, ctx')
      | Some (Inr rs, ctx') \<Rightarrow>
          Some (Inr \<lparr>initial_result = initial, handoff_results = rs\<rparr>, ctx'))"

text \<open>The passes of the loop as a step relation. \<open>chain_reaches run max_turns initial ctx0
  agents rs cur ctx\<close>: starting from the result \<open>initial\<close> in context \<open>ctx0\<close>, the chain
  has handed over to the agents \<open>agents\<close>, in this order and each one not handed over to
  before, has collected their results \<open>rs\<close>, and stands at the result \<open>cur\<close> in context
  \<open>ctx\<close>.\<close>

inductive chain_reaches ::
  "'a runner \<Rightarrow> nat \<Rightarrow> 'a RunResult \<Rightarrow> TutorContext \<Rightarrow>
   'a list \<Rightarrow> 'a RunResult list \<Rightarrow> 'a RunResult \<Rightarrow> TutorContext \<Rightarrow> bool"
  for run :: "'a runner" and max_turns :: nat and initial :: "'a RunResult"
    and ctx0 :: TutorContext where
  start: "chain_reaches run max_turns initial ctx0 [] [] initial ctx0"
| hop: "chain_reaches run max_turns initial ctx0 agents rs cur ctx \<Longrightarrow>
        handoff_info cur = Some h \<Longrightarrow> target_agent h \<notin> set agents \<Longrightarrow>
        run (target_agent h) (handoff_message h) max_turns ctx = (Inr next_result, ctx') \<Longrightarrow>
        chain_reaches run max_turns initial ctx0
          (agents @ [target_agent h]) (rs @ [next_result]) next_result ctx'"

text \<open>\<^verbatim>\<open>str(all_results)\<close>: the text of a dict with the two keys.\<close>

fun join_reprs :: "string list \<Rightarrow> string" where
  "join_reprs [] = []"
| "join_reprs [r] = r"
| "join_reprs (r # rs) = r @ '', '' @ join_reprs rs"

definition str_all_results :: "'a all_results \<Rightarrow> string" where
  "str_all_results rs =
     ''{'' @ [CHR 0x27] @ ''initial_result'' @ [CHR 0x27] @ '': ''
       @ (case initial_result rs of None \<Rightarrow> ''None'' | Some r \<Rightarrow> result_repr r)
       @ '', '' @ [CHR 0x27] @ ''handoff_results'' @ [CHR 0x27] @ '': [''
       @ join_reprs (map result_repr (handoff_results rs)) @ '']}''"

text \<open>\<^verbatim>\<open>sub in s\<close> on strings.\<close>

fun starts_with :: "string \<Rightarrow> string \<Rightarrow> bool" where
  "starts_with [] s = True"
| "starts_with (c # cs) [] = False"
| "starts_with (c # cs) (d # ds) = (c = d \<and> starts_with cs ds)"

fun str_contains :: "string \<Rightarrow> string \<Rightarrow> bool" where
  "str_contains sub [] = (sub = [])"
| "str_contains sub (c # cs) = (starts_with sub (c # cs) \<or> str_contains sub cs)"

text \<open>Lines 435 to 449 of \<^verbatim>\<open>complete_learning_objective\<close>: \<^verbatim>\<open>ValueError\<close> when no
  learning objective is set, otherwise the fallback to the default plan.\<close>

definition complete_learning_objective_setup :: "TutorContext \<Rightarrow> run_error + TutorContext" where
  "complete_learning_objective_setup ctx =
     (if \<not> truthy (learning_objective ctx) then Inl ValueError
      else
        (let ctx1 = (if study_plan ctx = None then create_default_study_plan ctx else ctx);
             ctx2 = (case study_plan ctx1 of
                       None \<Rightarrow> create_default_study_plan ctx1
                     | Some p \<Rightarrow>
                         if topics p = [] then create_default_study_plan ctx1 else ctx1)
         in case study_plan ctx2 of
              None \<Rightarrow> Inr ctx2
            | Some p \<Rightarrow>
                if learning_path p = []
                then Inr (ctx2\<lparr>study_plan := Some (p\<lparr>learning_path := topics p\<rparr>)\<rparr>)
                else Inr ctx2))"

record 'a learning_results =
  final_results :: "'a all_results"
  learning_completed :: bool

text \<open>\<^verbatim>\<open>complete_learning_objective\<close>. The planner agent and the text of its first prompt
  (a function of the context) are parameters.\<close>

definition complete_learning_objective ::
  "'a runner \<Rightarrow> 'a \<Rightarrow> (TutorContext \<Rightarrow> string) \<Rightarrow> env \<Rightarrow> nat \<Rightarrow> TutorContext \<Rightarrow>
   ((run_error + 'a learning_results) \<times> TutorContext) option" where
  "complete_learning_objective run planner prompt e max_turns ctx =
     (case complete_learning_objective_setup ctx of
        Inl err \<Rightarrow> Some (Inl err, ctx)
      | Inr ctx1 \<Rightarrow>
          (case run planner (prompt ctx1) max_turns ctx1 of
             (Inl err, ctx2) \<Rightarrow> Some (Inl err, ctx2)
           | (Inr initial, ctx2) \<Rightarrow>
               (case process_agent_handoff_chain run max_turns (Some initial) ctx2 of
                  None \<Rightarrow> None
                | Some (Inl err, ctx3) \<Rightarrow> Some (Inl err, ctx3)
                | Some (Inr rs, ctx3) \<Rightarrow>
                    (let learning_complete =
                           str_contains ''LEARNING_COMPLETE'' (str_all_results rs)
                     in Some (Inr \<lparr>final_results = rs,
                                    learning_completed = learning_complete\<rparr>,
                              if learning_complete then mark_learning_complete e ctx3
                              else ctx3)))))"

section \<open>Example sessions\<close>

text \<open>Concrete stores, sessions and agents on which the theorems below are exercised.\<close>

definition empty_database :: database where
  "empty_database =
     \<lparr>users = [], learning_objectives_tbl = [], study_plans = [], topic_progress_tbl = [],
      quizzes_tbl = [], quiz_results_tbl = []\<rparr>"

definition env_ok :: env where
  "env_ok =
     \<lparr>env_uuid = ''obj-2'', env_strftime = ''2024-03-02T09:00:00'',
      env_isoformat = ''2024-03-02T09:00:00.000001'', env_io = IoOk\<rparr>"

definition algebra_plan :: StudyPlan where
  "algebra_plan =
     \<lparr>topics = [''Fractions'', ''Equations''], learning_path = [''Fractions'', ''Equations''],
      estimated_time = Some [(''Fractions'', ''1 hour''), (''Equations'', ''2 hours'')],
      prerequisites = Some [(''Equations'', [''Fractions''])]\<rparr>"

definition bob_objective :: objective_doc where
  "bob_objective =
     \<lparr>title = Some (Some ''Geometry''), description = Some (Some ''Geometry''),
      created_at = Some ''2024-03-01T08:00:00'', completed_at = None,
      study_plan_doc = Some (study_plan_data (Some algebra_plan)),
      topic_progress = Some [], quizzes = Some []\<rparr>"

text \<open>A stored objective whose study plan lacks \<^verbatim>\<open>estimated_time\<close>.\<close>

definition carol_objective :: objective_doc where
  "carol_objective =
     \<lparr>title = Some (Some ''Chemistry''), description = Some (Some ''Chemistry''),
      created_at = Some ''2024-02-01T10:00:00'', completed_at = None,
      study_plan_doc = Some (empty_plan_doc
        \<lparr>plan_topics := Some [''Atoms''], plan_learning_path := Some [''Atoms''],
         plan_prerequisites := Some (Some [])\<rparr>),
      topic_progress = Some [(''Atoms'',
        \<lparr>mastery_level = Some 0.9, completed = Some True, last_studied = None\<rparr>)],
      quizzes = Some []\<rparr>"

text \<open>A later objective.\<close>

definition later_objective :: objective_doc where
  "later_objective = bob_objective\<lparr>title := Some (Some ''Algebra''),
     created_at := Some ''2024-03-05T08:00:00''\<rparr>"

text \<open>A record for \<^verbatim>\<open>bob\<close> with two objectives that each hold progress and a quiz on the
  topic \<^verbatim>\<open>Fractions\<close>, in the form \<^verbatim>\<open>save_progress\<close> gives them: the id of the quiz is
  \<^verbatim>\<open>f"{user_id}_{topic}_quiz"\<close>, the same under every objective of the user.\<close>

definition fractions_quiz :: "real \<Rightarrow> quiz_doc" where
  "fractions_quiz s =
     \<lparr>quiz_topic = Some ''Fractions'', quiz_questions = Some [], quiz_time_limit = None,
      quiz_created_at = None,
      results = Some \<lparr>answers = Some [(''0'', ''1/2'')], score = Some s, feedback = None,
                      results_created_at = None\<rparr>\<rparr>"

definition first_quiz_objective :: objective_doc where
  "first_quiz_objective = bob_objective
     \<lparr>topic_progress := Some [(''Fractions'',
        \<lparr>mastery_level = Some 0.5, completed = Some False, last_studied = None\<rparr>)],
      quizzes := Some [(''bob_Fractions_quiz'', fractions_quiz 0.5)]\<rparr>"

definition second_quiz_objective :: objective_doc where
  "second_quiz_objective = later_objective
     \<lparr>topic_progress := Some [(''Fractions'',
        \<lparr>mastery_level = Some 0.9, completed = Some True, last_studied = None\<rparr>)],
      quizzes := Some [(''bob_Fractions_quiz'', fractions_quiz 0.9)]\<rparr>"

definition two_quiz_objectives :: user_data where
  "two_quiz_objectives = empty_user_data\<lparr>learning_objectives :=
     Some [(''obj-1'', first_quiz_objective), (''obj-3'', second_quiz_objective)]\<rparr>"

text \<open>A flat-file store in which \<^verbatim>\<open>bob\<close> and \<^verbatim>\<open>carol\<close> have data, and a relational
  store in which only \<^verbatim>\<open>bob\<close> has.\<close>

definition json_store :: UserProgressStore where
  "json_store =
     \<lparr>use_sqlite = False,
      files = [get_user_json_path ''bob'' \<mapsto>
                 Document (empty_user_data\<lparr>learning_objectives :=
                   Some [(''obj-1'', bob_objective)]\<rparr>),
               get_user_json_path ''carol'' \<mapsto>
                 Document (empty_user_data\<lparr>learning_objectives :=
                   Some [(''obj-7'', carol_objective)]\<rparr>)],
      db = empty_database\<rparr>"

text \<open>A user whose stored objective has a \<^verbatim>\<open>null\<close> title (what \<^verbatim>\<open>save_progress\<close> writes for
  a session with an objective id and no learning objective) and a plan without
  \<^verbatim>\<open>learning_path\<close>.\<close>

definition dave_objective :: objective_doc where
  "dave_objective =
     \<lparr>title = Some None, description = Some None,
      created_at = Some ''2024-02-03T10:00:00'', completed_at = None,
      study_plan_doc = Some (empty_plan_doc
        \<lparr>plan_topics := Some [''Cells''], plan_estimated_time := Some (Some []),
         plan_prerequisites := Some (Some [])\<rparr>),
      topic_progress = Some [], quizzes = Some []\<rparr>"

definition dave_store :: UserProgressStore where
  "dave_store =
     \<lparr>use_sqlite = False,
      files = [get_user_json_path ''dave'' \<mapsto>
                 Document (empty_user_data\<lparr>learning_objectives :=
                   Some [(''obj-9'', dave_objective)]\<rparr>)],
      db = empty_database\<rparr>"

definition sqlite_store :: UserProgressStore where
  "sqlite_store =
     \<lparr>use_sqlite = True, files = Map.empty,
      db = empty_database\<lparr>users :=
             [\<lparr>users_user_id = ''bob'', users_created_at = ''2024-03-01T08:00:00''\<rparr>]\<rparr>\<rparr>"

text \<open>\<^verbatim>\<open>bob\<close>'s session on the flat-file store, working on a second objective.\<close>

definition bob_session :: TutorContext where
  "bob_session =
     (new_TutorContext ''bob'' json_store)
       \<lparr>learning_objective := Some ''Algebra'', study_plan := Some algebra_plan\<rparr>"

text \<open>A planner result that names no next agent.\<close>

definition final_plan_result :: "nat RunResult" where
  "final_plan_result = \<lparr>result_repr = ''RunResult(plan)'', handoff_info = None\<rparr>"

section \<open>Derived notions\<close>


text \<open>No quiz that the session holds has a question: then \<^verbatim>\<open>json\<close> can encode the
  document that \<^verbatim>\<open>save_progress\<close> builds.\<close>

definition no_quiz_questions :: "TutorContext \<Rightarrow> bool" where
  "no_quiz_questions ctx =
     list_all (\<lambda>(t, result). case entry_quiz result of
                                 None \<Rightarrow> True
                               | Some q \<Rightarrow> questions q = [])
       (quiz_results ctx)"

text \<open>The flat-file store after a successful \<^verbatim>\<open>save_progress\<close> of \<open>ctx\<close>.\<close>

definition saved_store :: "env \<Rightarrow> UserProgressStore \<Rightarrow> TutorContext \<Rightarrow> UserProgressStore" where
  "saved_store e st ctx =
     st\<lparr>files := (files st)(get_user_json_path (user_id ctx) \<mapsto>
          Document \<lparr>data_user_id = None, data_created_at = None,
            learning_objectives = Some
              [(if truthy (objective_id ctx) then get_default (objective_id ctx) []
                else env_uuid e, objective_data e ctx)],
            last_updated = Some (env_isoformat e)\<rparr>)\<rparr>"

text \<open>The relational store after a successful \<^verbatim>\<open>save_progress\<close> of \<open>ctx\<close>.\<close>

definition saved_database :: "env \<Rightarrow> UserProgressStore \<Rightarrow> TutorContext \<Rightarrow> UserProgressStore" where
  "saved_database e st ctx =
     st\<lparr>db := save_objective_rows e (user_id ctx)
          (if truthy (objective_id ctx) then get_default (objective_id ctx) []
           else env_uuid e, objective_data e ctx)
          (if filter (\<lambda>r. users_user_id r = user_id ctx) (users (db st)) = []
           then (db st)\<lparr>users := users (db st) @
                  [\<lparr>users_user_id = user_id ctx, users_created_at = env_isoformat e\<rparr>]\<rparr>
           else db st)\<rparr>"

text \<open>The rows that \<^verbatim>\<open>_save_to_sqlite\<close> writes: for an objective into the table
  \<^verbatim>\<open>learning_objectives\<close>, for a topic's progress into \<^verbatim>\<open>topic_progress\<close>, for a
  session's plan into \<^verbatim>\<open>study_plans\<close>.\<close>

definition objective_row ::
  "env \<Rightarrow> string \<Rightarrow> string \<Rightarrow> objective_doc \<Rightarrow> learning_objectives_row" where
  "objective_row e uid oid od =
     \<lparr>lo_objective_id = oid, lo_user_id = uid,
      lo_title = get_default (title od) (Some []),
      lo_description = get_default (description od) (Some []),
      lo_created_at = get_default (created_at od) (env_isoformat e),
      lo_completed_at = completed_at od\<rparr>"

definition progress_row ::
  "env \<Rightarrow> string \<Rightarrow> string \<Rightarrow> string \<times> progress_doc \<Rightarrow> topic_progress_row" where
  "progress_row e uid oid entry =
     \<lparr>tp_progress_id = uid @ ''_'' @ oid @ ''_'' @ fst entry,
      tp_user_id = uid, tp_objective_id = oid, tp_topic = fst entry,
      tp_mastery_level = get_default (mastery_level (snd entry)) 0,
      tp_completed = get_default (completed (snd entry)) False,
      tp_last_studied = get_default (last_studied (snd entry)) (env_isoformat e)\<rparr>"

definition plan_row :: "env \<Rightarrow> string \<Rightarrow> StudyPlan \<Rightarrow> study_plans_row" where
  "plan_row e oid p =
     \<lparr>sp_plan_id = oid @ ''_plan'', sp_objective_id = oid,
      sp_topics = topics p, sp_learning_path = learning_path p,
      sp_estimated_time = estimated_time p, sp_prerequisites = prerequisites p,
      sp_created_at = env_isoformat e, sp_updated_at = env_isoformat e\<rparr>"

section \<open>Example agents\<close>

text \<open>Two agents that hand over to each other for ever: agent \<open>0\<close> names agent \<open>1\<close> and
  reports completion, every other agent names agent \<open>0\<close>.\<close>

definition ping_pong :: "nat runner" where
  "ping_pong agent input max_turns ctx =
     (Inr \<lparr>result_repr = (if agent = 0 then ''LEARNING_COMPLETE: done'' else ''Quiz(...)''),
           handoff_info = Some \<lparr>target_agent = (if agent = 0 then 1 else 0),
                                 handoff_message = ''continue''\<rparr>\<rparr>, ctx)"

definition first_result :: "nat RunResult" where
  "first_result =
     \<lparr>result_repr = ''LEARNING_COMPLETE: done'',
      handoff_info = Some \<lparr>target_agent = 1, handoff_message = ''continue''\<rparr>\<rparr>"

definition second_result :: "nat RunResult" where
  "second_result =
     \<lparr>result_repr = ''Quiz(...)'',
      handoff_info = Some \<lparr>target_agent = 0, handoff_message = ''continue''\<rparr>\<rparr>"

section \<open>Persistent store: properties\<close>

lemma json_serializable_last_updated [simp]:
  "json_serializable (d\<lparr>last_updated := x\<rparr>) = json_serializable d"
  by (simp add: json_serializable_def)

lemma save_user_progress_json:
  "\<not> use_sqlite st \<Longrightarrow> env_io e = IoOk \<Longrightarrow> json_serializable d \<Longrightarrow>
   save_user_progress e st u d =
     (True, st\<lparr>files := (files st)(get_user_json_path u \<mapsto>
                Document (d\<lparr>last_updated := Some (env_isoformat e)\<rparr>))\<rparr>)"
  by (simp add: save_user_progress_def save_to_json_def)

lemma save_user_progress_True:
  "save_user_progress e st u d = (True, st') \<Longrightarrow> env_io e = IoOk \<and> json_serializable d"
  by (auto simp: save_user_progress_def save_to_json_def save_to_sqlite_def Let_def
      split: io_outcome.splits if_splits)

text \<open>A document with a \<^verbatim>\<open>QuizQuestion\<close> object is not saved, whatever the state of the
  store: the flat-file save returns \<^verbatim>\<open>False\<close> and leaves the user's file unparseable, the
  relational save returns \<^verbatim>\<open>False\<close> and leaves the database as it was.\<close>

lemma save_user_progress_not_serializable:
  "\<not> json_serializable d \<Longrightarrow> \<not> fst (save_user_progress e st u d)"
  by (auto simp: save_user_progress_def save_to_json_def save_to_sqlite_def Let_def
      split: io_outcome.splits)

lemma save_progress_row_frame:
  "learning_objectives_tbl (fold (save_progress_row e u obj) tp d) = learning_objectives_tbl d"
  "users (fold (save_progress_row e u obj) tp d) = users d"
  "study_plans (fold (save_progress_row e u obj) tp d) = study_plans d"
  by (induction tp arbitrary: d) (auto simp: save_progress_row_def split: prod.splits)

lemma save_quiz_row_frame:
  "learning_objectives_tbl (fold (save_quiz_row e u obj) qs d) = learning_objectives_tbl d"
  "users (fold (save_quiz_row e u obj) qs d) = users d"
  "study_plans (fold (save_quiz_row e u obj) qs d) = study_plans d"
  by (induction qs arbitrary: d)
    (auto simp: save_quiz_row_def Let_def split: prod.splits option.splits)

lemma save_objective_rows_objectives:
  "learning_objectives_tbl (save_objective_rows e uid (oid, od) d) =
     insert_or_replace lo_objective_id (objective_row e uid oid od) (learning_objectives_tbl d)"
  "users (save_objective_rows e uid (oid, od) d) = users d"
  by (simp_all add: save_objective_rows_def Let_def save_progress_row_frame save_quiz_row_frame
      objective_row_def split: option.splits)


lemma sqlite_two_objectives:
  assumes "use_sqlite st" and "env_io e = IoOk" and "env_io e' = IoOk"
    and "learning_objectives data = Some [(a, oa), (b, ob)]" and "a \<noteq> b"
    and "\<forall>r \<in> set (learning_objectives_tbl (db st)).
           lo_user_id r = uid \<longrightarrow> lo_objective_id r = a \<or> lo_objective_id r = b"
    and "json_serializable data"
  shows "\<exists>st' da db'. save_user_progress e st uid data = (True, st')
     \<and> learning_objectives (load_user_progress e' st' uid) = Some [(a, da), (b, db')]
     \<and> created_at da = Some (get_default (created_at oa) (env_isoformat e))
     \<and> created_at db' = Some (get_default (created_at ob) (env_isoformat e))
     \<and> title da = Some (get_default (title oa) (Some []))
     \<and> title db' = Some (get_default (title ob) (Some []))"
proof -
  define d1 where "d1 = (if filter (\<lambda>r. users_user_id r = uid) (users (db st)) = []
                     then (db st)\<lparr>users := users (db st) @
                            [\<lparr>users_user_id = uid, users_created_at = env_isoformat e\<rparr>]\<rparr>
                     else db st)"
  define d2 where "d2 = save_objective_rows e uid (b, ob) (save_objective_rows e uid (a, oa) d1)"
  have sv: "save_user_progress e st uid data = (True, st\<lparr>db := d2\<rparr>)"
    using assms(1,2,4,7)
    by (simp add: save_user_progress_def save_to_sqlite_def d1_def d2_def Let_def)
  have u1: "filter (\<lambda>r. users_user_id r = uid) (users d1) \<noteq> []"
    by (auto simp: d1_def)
  have u2: "users d2 = users d1"
    by (simp add: d2_def save_objective_rows_objectives)
  have t1: "learning_objectives_tbl d1 = learning_objectives_tbl (db st)"
    by (simp add: d1_def)
  have rest: "filter (\<lambda>r. lo_user_id r = uid)
                (filter (\<lambda>r. lo_objective_id r \<noteq> b)
                   (filter (\<lambda>r. lo_objective_id r \<noteq> a) (learning_objectives_tbl (db st)))) = []"
    using assms(6) by (auto simp: filter_empty_conv)
  have t2: "filter (\<lambda>r. lo_user_id r = uid) (learning_objectives_tbl d2)
              = [objective_row e uid a oa, objective_row e uid b ob]"
    using assms(5) rest
    by (simp add: d2_def save_objective_rows_objectives insert_or_replace_def t1 objective_row_def)
  obtain user us where us: "filter (\<lambda>r. users_user_id r = uid) (users d2) = user # us"
    using u1 u2 by (cases "filter (\<lambda>r. users_user_id r = uid) (users d2)") auto
  have ld: "learning_objectives (load_user_progress e' (st\<lparr>db := d2\<rparr>) uid) =
              Some [load_objective_doc d2 uid (objective_row e uid a oa),
                    load_objective_doc d2 uid (objective_row e uid b ob)]"
    using assms(1,3,5) us t2
    by (simp add: load_user_progress_def load_from_sqlite_def dict_of_def
        load_objective_doc_def Let_def objective_row_def)
  show ?thesis
    by (simp add: sv ld) (simp add: load_objective_doc_def Let_def objective_row_def)
qed

lemma json_saved_objectives:
  assumes "\<not> use_sqlite st" and "env_io e = IoOk" and "env_io e' = IoOk"
    and "learning_objectives data = Some objs" and "json_serializable data"
  shows "\<exists>st'. save_user_progress e st uid data = (True, st')
           \<and> learning_objectives (load_user_progress e' st' uid) = Some objs"
  using assms
  by (simp add: save_user_progress_json load_user_progress_def load_from_json_def)

text \<open>
  Claim C8. Loading a user for whom nothing is stored returns the empty dict under both
  backends: on the flat-file backend when the user's file does not exist, on the
  relational backend when the table \<^verbatim>\<open>users\<close> has no row for the user. This holds
  whether or not the access raises.
\<close>

theorem load_user_progress_no_data:
  assumes "\<not> use_sqlite st \<longrightarrow> files st (get_user_json_path uid) = None"
    and "use_sqlite st \<longrightarrow> uid \<notin> users_user_id ` set (users (db st))"
  shows "load_user_progress e st uid = empty_user_data"
proof (cases "use_sqlite st")
  case True
  with assms(2) have "filter (\<lambda>r. users_user_id r = uid) (users (db st)) = []"
    by (auto simp: filter_empty_conv)
  with True show ?thesis
    by (simp add: load_user_progress_def load_from_sqlite_def split: io_outcome.splits)
next
  case False
  with assms(1) show ?thesis
    by (simp add: load_user_progress_def load_from_json_def)
qed

theorem load_user_progress_no_data_witness:
  "\<not> use_sqlite json_store \<and> files json_store (get_user_json_path ''alice'') = None
   \<and> use_sqlite sqlite_store
   \<and> ''alice'' \<notin> users_user_id ` set (users (db sqlite_store))
   \<and> load_user_progress env_ok json_store ''alice'' = empty_user_data
   \<and> load_user_progress env_ok sqlite_store ''alice'' = empty_user_data"
  using load_user_progress_no_data [of json_store "''alice''" env_ok]
    load_user_progress_no_data [of sqlite_store "''alice''" env_ok]
  by (simp add: json_store_def sqlite_store_def get_user_json_path_def empty_database_def)

section \<open>Session state: properties\<close>

lemma objective_data_progress_store [simp]:
  "objective_data e (ctx\<lparr>progress_store := s\<rparr>) = objective_data e ctx"
  by (simp add: objective_data_def topic_progress_data_def quizzes_data_def
      cong: option.case_cong)

lemma objective_data_objective_id [simp]:
  "objective_data e (ctx\<lparr>objective_id := x\<rparr>) = objective_data e ctx"
  by (simp add: objective_data_def topic_progress_data_def quizzes_data_def
      cong: option.case_cong)

lemma write_progress_json:
  assumes "\<not> use_sqlite st" and "write_progress e st oid ctx = (True, ctx')"
  shows "env_io e = IoOk \<and>
         ctx' = ctx\<lparr>progress_store := Some (st\<lparr>files :=
                  (files st)(get_user_json_path (user_id ctx) \<mapsto>
                    Document \<lparr>data_user_id = None, data_created_at = None,
                      learning_objectives = Some [(oid, objective_data e ctx)],
                      last_updated = Some (env_isoformat e)\<rparr>)\<rparr>)\<rparr>"
proof -
  from assms have io: "env_io e = IoOk"
    and js: "json_serializable
      (empty_user_data\<lparr>learning_objectives := Some [(oid, objective_data e ctx)]\<rparr>)"
    by (auto simp: write_progress_def split: prod.splits dest: save_user_progress_True)
  with assms show ?thesis
    by (auto simp: write_progress_def save_user_progress_json empty_user_data_def)
qed

lemma set_update_subset: "set (AList.update k v al) \<subseteq> insert (k, v) (set al)"
  by (induction al) auto

lemma quizzes_data_plain:
  assumes "no_quiz_questions ctx" and "(k, qd) \<in> set (quizzes_data ctx)"
  shows "quiz_questions qd = Some []"
proof -
  have "\<forall>(k, qd) \<in> set (fold (\<lambda>(t, result) d.
             case entry_quiz result of
               None \<Rightarrow> d
             | Some q \<Rightarrow>
                 AList.update (uid @ ''_'' @ t @ ''_quiz'')
                   \<lparr>quiz_topic = Some t,
                    quiz_questions = Some (map QuestionObject (questions q)),
                    quiz_time_limit = None, quiz_created_at = None,
                    results = Some \<lparr>answers = Some (get_default (entry_user_answers result) []),
                                    score = m t, feedback = None,
                                    results_created_at = None\<rparr>\<rparr> d) qs d0).
          quiz_questions qd = Some []"
    if "list_all (\<lambda>(t, result). case entry_quiz result of
                                 None \<Rightarrow> True
                               | Some q \<Rightarrow> questions q = []) qs"
      and "\<forall>(k, qd) \<in> set d0. quiz_questions qd = Some []"
    for qs d0 uid m
    using that
  proof (induction qs arbitrary: d0)
    case Nil
    then show ?case by simp
  next
    case (Cons a qs)
    obtain t result where a: "a = (t, result)" by (cases a)
    show ?case
    proof (cases "entry_quiz result")
      case None
      with Cons a show ?thesis by simp
    next
      case (Some q)
      with Cons.prems(1) a have q: "questions q = []" by simp
      let ?v = "\<lparr>quiz_topic = Some t,
                    quiz_questions = Some (map QuestionObject (questions q)),
                    quiz_time_limit = None, quiz_created_at = None,
                    results = Some \<lparr>answers = Some (get_default (entry_user_answers result) []),
                                    score = m t, feedback = None,
                                    results_created_at = None\<rparr>\<rparr>"
      have "\<forall>(k, qd) \<in> set (AList.update (uid @ ''_'' @ t @ ''_quiz'') ?v d0).
              quiz_questions qd = Some []"
        using set_update_subset [of "uid @ ''_'' @ t @ ''_quiz''" ?v d0] Cons.prems(2) q
        by auto
      with Cons.IH [of "AList.update (uid @ ''_'' @ t @ ''_quiz'') ?v d0"] Cons.prems(1) a Some
      show ?thesis by simp
    qed
  qed
  from this [of "quiz_results ctx" "[]" "user_id ctx" "mastery_levels ctx"] assms
  show ?thesis
    by (auto simp: quizzes_data_def no_quiz_questions_def)
qed

lemma objective_data_serializable:
  assumes "no_quiz_questions ctx"
    and "learning_objectives d = Some [(oid, objective_data e ctx)]"
  shows "json_serializable d"
proof -
  have "list_all (\<lambda>(quiz_id, quiz_data).
           list_all is_plain (get_default (quiz_questions quiz_data) [])) (quizzes_data ctx)"
    using quizzes_data_plain [OF assms(1)]
    by (auto simp: list_all_iff get_default_def)
  then show ?thesis
    by (simp add: json_serializable_def assms(2) objective_data_def get_default_def)
qed

lemma no_quiz_questions_update [simp]:
  "no_quiz_questions (ctx\<lparr>objective_id := x\<rparr>) = no_quiz_questions ctx"
  "no_quiz_questions (ctx\<lparr>mastery_levels := m\<rparr>) = no_quiz_questions ctx"
  "no_quiz_questions (ctx\<lparr>completed_topics := cs\<rparr>) = no_quiz_questions ctx"
  "no_quiz_questions (ctx\<lparr>learning_objective := lo\<rparr>) = no_quiz_questions ctx"
  "no_quiz_questions (ctx\<lparr>study_plan := sp\<rparr>) = no_quiz_questions ctx"
  by (simp_all add: no_quiz_questions_def)

lemma save_progress_completed_topics [simp]:
  "completed_topics (snd (save_progress e ctx)) = completed_topics ctx"
  by (simp add: save_progress_def write_progress_def split: option.splits prod.splits)

lemma save_progress_mastery_levels [simp]:
  "mastery_levels (snd (save_progress e ctx)) = mastery_levels ctx"
  by (simp add: save_progress_def write_progress_def split: option.splits prod.splits)

text \<open>
  Claim C10. A session with neither an objective id nor a learning objective (each
  \<^verbatim>\<open>None\<close> or the empty string): \<^verbatim>\<open>save_progress\<close> returns \<^verbatim>\<open>False\<close> and the session,
  with the store it carries, is returned as it was: nothing is written.
\<close>

theorem save_progress_nothing_to_save:
  assumes "\<not> truthy (objective_id ctx)" and "\<not> truthy (learning_objective ctx)"
  shows "save_progress e ctx = (False, ctx)"
  using assms by (simp add: save_progress_def split: option.splits)

theorem save_progress_nothing_to_save_witness:
  "\<not> truthy (objective_id (new_TutorContext ''alice'' json_store))
   \<and> \<not> truthy (learning_objective (new_TutorContext ''alice'' json_store))
   \<and> save_progress env_ok (new_TutorContext ''alice'' json_store)
       = (False, new_TutorContext ''alice'' json_store)"
  using save_progress_nothing_to_save [of "new_TutorContext ''alice'' json_store" env_ok]
  by (simp add: new_TutorContext_def truthy_def)

lemma save_progress_json_ok:
  assumes "progress_store ctx = Some st" and "\<not> use_sqlite st" and "env_io e = IoOk"
    and "truthy (objective_id ctx) \<or> truthy (learning_objective ctx)"
    and "no_quiz_questions ctx"
  shows "save_progress e ctx =
           (True, (if truthy (objective_id ctx) then ctx
                   else ctx\<lparr>objective_id := Some (env_uuid e)\<rparr>)
                  \<lparr>progress_store := Some (saved_store e st ctx)\<rparr>)"
proof (cases "truthy (objective_id ctx)")
  case True
  with assms(1-4) show ?thesis
    by (simp add: save_progress_def write_progress_def save_user_progress_json
        objective_data_serializable [OF assms(5)] empty_user_data_def saved_store_def)
next
  case False
  with assms(1-4) show ?thesis
    by (simp add: save_progress_def write_progress_def save_user_progress_json
        objective_data_serializable [OF assms(5)] empty_user_data_def saved_store_def)
qed

lemma load_saved_store:
  assumes "\<not> use_sqlite st" and "env_io e' = IoOk"
  shows "learning_objectives (load_user_progress e' (saved_store e st ctx) (user_id ctx)) =
           Some [(if truthy (objective_id ctx) then get_default (objective_id ctx) []
                  else env_uuid e, objective_data e ctx)]"
  using assms by (simp add: saved_store_def load_user_progress_def load_from_json_def)

lemma save_progress_sqlite_ok:
  assumes "progress_store ctx = Some st" and "use_sqlite st" and "env_io e = IoOk"
    and "truthy (objective_id ctx) \<or> truthy (learning_objective ctx)"
    and "no_quiz_questions ctx"
  shows "save_progress e ctx =
           (True, (if truthy (objective_id ctx) then ctx
                   else ctx\<lparr>objective_id := Some (env_uuid e)\<rparr>)
                  \<lparr>progress_store := Some (saved_database e st ctx)\<rparr>)"
proof (cases "truthy (objective_id ctx)")
  case True
  with assms(1-4) show ?thesis
    by (simp add: save_progress_def write_progress_def save_user_progress_def
        save_to_sqlite_def Let_def objective_data_serializable [OF assms(5)]
        empty_user_data_def saved_database_def)
next
  case False
  with assms(1-4) show ?thesis
    by (simp add: save_progress_def write_progress_def save_user_progress_def
        save_to_sqlite_def Let_def objective_data_serializable [OF assms(5)]
        empty_user_data_def saved_database_def)
qed

text \<open>A session holding a quiz with a question: \<^verbatim>\<open>save_progress\<close> fails on either
  backend, whatever the state of the store, because \<^verbatim>\<open>json\<close> cannot encode the
  \<^verbatim>\<open>QuizQuestion\<close> objects that \<^verbatim>\<open>save_progress\<close> puts into the document.\<close>

lemma fst_write_progress:
  "fst (write_progress e st oid ctx) =
     fst (save_user_progress e st (user_id ctx)
            (empty_user_data\<lparr>learning_objectives := Some [(oid, objective_data e ctx)]\<rparr>))"
  by (simp add: write_progress_def split: prod.splits)

lemma save_progress_fails_on_quiz_question:
  assumes "quiz_results ctx = [(t, \<lparr>entry_quiz = Some q, entry_user_answers = ua\<rparr>)]"
    and "questions q \<noteq> []"
  shows "\<not> fst (save_progress e ctx)"
proof -
  have "\<not> list_all is_plain (map QuestionObject (questions q))"
    using assms(2) by (cases "questions q") simp_all
  then have ns: "\<not> json_serializable
      (empty_user_data\<lparr>learning_objectives := Some [(oid, objective_data e c)]\<rparr>)"
    if "quiz_results c = quiz_results ctx" for oid c
    using that
    by (simp add: json_serializable_def empty_user_data_def objective_data_def
        quizzes_data_def get_default_def assms(1))
  show ?thesis
    by (auto simp: save_progress_def fst_write_progress ns
        save_user_progress_not_serializable split: option.splits)
qed

text \<open>
  Claim C9. On the flat-file backend a call of \<^verbatim>\<open>save_progress\<close> that returns \<^verbatim>\<open>True\<close>
  replaces the user's file by a document with exactly one learning objective, filed
  under the session's objective id; a later load that does not raise returns exactly
  that one objective, so objectives stored before under other ids are gone.
\<close>

theorem save_progress_overwrites_record:
  assumes "progress_store ctx = Some st" and "\<not> use_sqlite st"
    and "save_progress e ctx = (True, ctx')"
  shows "\<exists>st' oid. progress_store ctx' = Some st' \<and> objective_id ctx' = Some oid
           \<and> files st' (get_user_json_path (user_id ctx)) =
               Some (Document \<lparr>data_user_id = None, data_created_at = None,
                 learning_objectives = Some [(oid, objective_data e ctx')],
                 last_updated = Some (env_isoformat e)\<rparr>)
           \<and> (\<forall>e'. env_io e' = IoOk \<longrightarrow>
                 learning_objectives (load_user_progress e' st' (user_id ctx)) =
                   Some [(oid, objective_data e ctx')])"
proof (cases "truthy (objective_id ctx)")
  case True
  then obtain oid where oid: "objective_id ctx = Some oid"
    by (auto simp: truthy_def split: option.splits)
  with True assms have w: "write_progress e st oid ctx = (True, ctx')"
    by (simp add: save_progress_def get_default_def)
  from write_progress_json [OF assms(2) w] oid assms(2) show ?thesis
    by (auto simp: load_user_progress_def load_from_json_def)
next
  case False
  with assms have w:
    "write_progress e st (env_uuid e) (ctx\<lparr>objective_id := Some (env_uuid e)\<rparr>) = (True, ctx')"
    by (simp add: save_progress_def split: if_splits)
  from write_progress_json [OF assms(2) w] assms(2) show ?thesis
    by (auto simp: load_user_progress_def load_from_json_def)
qed

theorem save_progress_overwrites_record_witness:
  "progress_store bob_session = Some json_store \<and> \<not> use_sqlite json_store
   \<and> save_progress env_ok bob_session = (True, snd (save_progress env_ok bob_session))
   \<and> learning_objectives (load_user_progress env_ok json_store ''bob'')
        = Some [(''obj-1'', bob_objective)]
   \<and> (\<exists>st'. progress_store (snd (save_progress env_ok bob_session)) = Some st'
          \<and> learning_objectives (load_user_progress env_ok st' ''bob'')
               = Some [(''obj-2'', objective_data env_ok bob_session)])"
proof -
  have ps: "progress_store bob_session = Some json_store"
    and uid: "user_id bob_session = ''bob''"
    and oid: "\<not> truthy (objective_id bob_session)"
    and lo: "truthy (objective_id bob_session) \<or> truthy (learning_objective bob_session)"
    by (simp_all add: bob_session_def new_TutorContext_def truthy_def)
  have js: "\<not> use_sqlite json_store"
    by (simp add: json_store_def)
  have io: "env_io env_ok = IoOk" and uu: "env_uuid env_ok = ''obj-2''"
    by (simp_all add: env_ok_def)
  have nq: "no_quiz_questions bob_session"
    by (simp add: no_quiz_questions_def bob_session_def new_TutorContext_def)
  have old: "learning_objectives (load_user_progress env_ok json_store ''bob'')
               = Some [(''obj-1'', bob_objective)]"
    by (simp add: load_user_progress_def load_from_json_def json_store_def io
        get_user_json_path_def empty_user_data_def)
  have sv: "save_progress env_ok bob_session = (True, snd (save_progress env_ok bob_session))"
    by (simp add: save_progress_json_ok [OF ps js io lo nq])
  have id2: "objective_id (snd (save_progress env_ok bob_session)) = Some ''obj-2''"
    by (simp add: save_progress_json_ok [OF ps js io lo nq] oid uu)
  from save_progress_overwrites_record [OF ps js sv] obtain st' oid' where
    "progress_store (snd (save_progress env_ok bob_session)) = Some st'"
    "objective_id (snd (save_progress env_ok bob_session)) = Some oid'"
    "\<forall>e'. env_io e' = IoOk \<longrightarrow>
       learning_objectives (load_user_progress e' st' (user_id bob_session)) =
         Some [(oid', objective_data env_ok (snd (save_progress env_ok bob_session)))]"
    by blast
  moreover have "objective_data env_ok (snd (save_progress env_ok bob_session))
                  = objective_data env_ok bob_session"
    by (simp add: save_progress_json_ok [OF ps js io lo nq] oid objective_data_def
        topic_progress_data_def quizzes_data_def cong: option.case_cong)
  ultimately have "\<exists>st'. progress_store (snd (save_progress env_ok bob_session)) = Some st'
          \<and> learning_objectives (load_user_progress env_ok st' ''bob'')
               = Some [(''obj-2'', objective_data env_ok bob_session)]"
    using id2 io uid by auto
  with ps js sv old show ?thesis by simp
qed

subsection \<open>Reloading what a session saved\<close>

lemma map_of_fold_update:
  "map_of (fold (\<lambda>t d. AList.update t (f t) d) ts d0) k
     = (if k \<in> set ts then Some (f k) else map_of d0 k)"
  by (induction ts arbitrary: d0) (auto simp: update_conv')

lemma distinct_fold_update:
  "distinct (map fst d0) \<Longrightarrow> distinct (map fst (fold (\<lambda>t d. AList.update t (f t) d) ts d0))"
  by (induction ts arbitrary: d0) (auto simp: distinct_update)

lemma map_of_topic_progress_data:
  assumes "study_plan ctx = Some p"
  shows "map_of (topic_progress_data ctx) t =
           (if t \<in> set (topics p)
            then Some \<lparr>mastery_level = Some (get_default (mastery_levels ctx t) 0),
                       completed = Some (t \<in> set (completed_topics ctx)),
                       last_studied = None\<rparr>
            else None)"
  using assms by (simp add: topic_progress_data_def map_of_fold_update)

lemma distinct_topic_progress_data: "distinct (map fst (topic_progress_data ctx))"
  by (simp add: topic_progress_data_def distinct_fold_update)

lemma mastery_levels_load_topic_progress:
  "distinct (map fst tp) \<Longrightarrow>
   mastery_levels (fold load_topic_progress tp c) t =
     (case map_of tp t of
        None \<Rightarrow> mastery_levels c t
      | Some pr \<Rightarrow> Some (get_default (mastery_level pr) 0))"
proof (induction tp arbitrary: c)
  case Nil
  then show ?case by simp
next
  case (Cons a tp)
  obtain k pr where a: "a = (k, pr)" by (cases a)
  from Cons.prems a have "map_of tp k = None" and d: "distinct (map fst tp)"
    by (auto simp: map_of_eq_None_iff)
  with Cons.IH [OF d, of "load_topic_progress a c"] a show ?case
    by (auto simp: load_topic_progress_def Let_def split: option.splits)
qed

lemma mastery_levels_load_quiz:
  "mastery_levels (fold load_quiz qs c) = mastery_levels c"
  by (induction qs arbitrary: c) (auto simp: load_quiz_def Let_def split: prod.splits)

lemma objective_id_load_topic_progress:
  "objective_id (fold load_topic_progress tp c) = objective_id c"
  by (induction tp arbitrary: c) (auto simp: load_topic_progress_def Let_def split: prod.splits)

lemma objective_id_load_quiz:
  "objective_id (fold load_quiz qs c) = objective_id c"
  by (induction qs arbitrary: c) (auto simp: load_quiz_def Let_def split: prod.splits)

lemma sorted_objectives_single: "sorted_objectives [x] = [x]"
  by (simp add: sorted_objectives_def)

lemma sorted_objectives_pair:
  "sorted_objectives [x, y] =
     (if get_default (created_at (snd x)) [] < get_default (created_at (snd y)) []
      then [y, x] else [x, y])"
  by (auto simp: sorted_objectives_def)

lemma load_progress_single:
  assumes "progress_store c = Some st"
    and "learning_objectives (load_user_progress e st (user_id c)) = Some [(oid, od)]"
    and "study_plan_doc od = Some (study_plan_data (Some p))"
  shows "load_progress e c =
           (True, fold load_quiz (get_default (quizzes od) [])
                    (fold load_topic_progress (get_default (topic_progress od) [])
                       (c\<lparr>objective_id := Some oid,
                          learning_objective := get_default (title od) (Some []),
                          study_plan := Some p\<rparr>)))"
proof -
  from assms(2) have ne: "load_user_progress e st (user_id c) \<noteq> empty_user_data"
    by (auto simp: empty_user_data_def)
  with assms show ?thesis
    by (cases p)
      (simp add: load_progress_def Let_def get_default_def sorted_objectives_single
        study_plan_data_def)
qed

text \<open>What a fresh load finds after \<^verbatim>\<open>update_mastery_level\<close> on the flat-file backend:
  a mastery level for the topics of the study plan, and for no other topic.\<close>

lemma fresh_load_after_update:
  assumes "progress_store ctx = Some st" and "\<not> use_sqlite st"
    and "truthy (objective_id ctx) \<or> truthy (learning_objective ctx)"
    and "study_plan ctx = Some p"
    and "env_io e = IoOk" and "env_io e' = IoOk"
    and nq: "no_quiz_questions ctx"
  shows "fst (fresh_load e' (update_mastery_level e ctx t x c))
         \<and> mastery_levels (snd (fresh_load e' (update_mastery_level e ctx t x c))) t
             = (if t \<in> set (topics p) then Some x else None)"
proof -
  define ctx2 where "ctx2 =
    (if c \<and> t \<notin> set (completed_topics ctx)
     then ctx\<lparr>mastery_levels := (mastery_levels ctx)(t \<mapsto> x),
              completed_topics := completed_topics ctx @ [t]\<rparr>
     else ctx\<lparr>mastery_levels := (mastery_levels ctx)(t \<mapsto> x)\<rparr>)"
  have upd: "update_mastery_level e ctx t x c = snd (save_progress e ctx2)"
    by (simp add: update_mastery_level_def ctx2_def Let_def)
  have nq2: "no_quiz_questions ctx2"
    using nq by (simp add: ctx2_def)
  have c2: "progress_store ctx2 = Some st" "study_plan ctx2 = Some p"
    "truthy (objective_id ctx2) \<or> truthy (learning_objective ctx2)"
    "mastery_levels ctx2 t = Some x" "user_id ctx2 = user_id ctx"
    using assms by (auto simp: ctx2_def)
  define st' where "st' = saved_store e st ctx2"
  define oid where "oid = (if truthy (objective_id ctx2) then get_default (objective_id ctx2) []
                           else env_uuid e)"
  have sp: "progress_store (snd (save_progress e ctx2)) = Some st'"
    "user_id (snd (save_progress e ctx2)) = user_id ctx"
    unfolding save_progress_json_ok [OF c2(1) assms(2) assms(5) c2(3) nq2] st'_def
    by (simp_all add: c2(5))
  let ?fresh = "new_TutorContext (user_id ctx) st'"
  have fl: "fresh_load e' (update_mastery_level e ctx t x c) = load_progress e' ?fresh"
    by (simp add: upd sp fresh_load_def)
  have ld: "learning_objectives (load_user_progress e' st' (user_id ?fresh))
              = Some [(oid, objective_data e ctx2)]"
    using load_saved_store [OF assms(2) assms(6), of e ctx2]
    by (simp add: st'_def oid_def new_TutorContext_def c2(5))
  have pl: "study_plan_doc (objective_data e ctx2) = Some (study_plan_data (Some p))"
    by (simp add: objective_data_def c2(2))
  have ps: "progress_store ?fresh = Some st'"
    by (simp add: new_TutorContext_def)
  have em: "mastery_levels ?fresh t = None"
    by (simp add: new_TutorContext_def)
  show ?thesis
    unfolding fl load_progress_single [OF ps ld pl]
    by (simp add: mastery_levels_load_quiz mastery_levels_load_topic_progress
        distinct_topic_progress_data objective_data_def get_default_def
        map_of_topic_progress_data [OF c2(2)] c2(4) em)
qed

subsection \<open>Reloading from the relational backend\<close>

lemma map_of_fold_dict:
  "map_of (fold (\<lambda>(k, v) d. AList.update k v d) kvs d) x =
     (case map_of (rev kvs) x of None \<Rightarrow> map_of d x | Some v \<Rightarrow> Some v)"
  by (induction kvs arbitrary: d)
    (auto simp: update_conv' map_add_def split: option.splits)

lemma map_of_dict_of: "map_of (dict_of kvs) x = map_of (rev kvs) x"
  by (simp add: dict_of_def map_of_fold_dict split: option.splits)

lemma distinct_fold_dict:
  "distinct (map fst d) \<Longrightarrow> distinct (map fst (fold (\<lambda>(k, v) d. AList.update k v d) kvs d))"
  by (induction kvs arbitrary: d) (auto simp: distinct_update)

lemma distinct_dict_of: "distinct (map fst (dict_of kvs))"
  by (simp add: dict_of_def distinct_fold_dict)

lemma set_dict_of: "set (dict_of kvs) \<subseteq> set kvs"
proof
  fix x assume x: "x \<in> set (dict_of kvs)"
  obtain k v where kv: "x = (k, v)" by (cases x)
  with x distinct_dict_of [of kvs] have "map_of (dict_of kvs) k = Some v"
    by simp
  then have "map_of (rev kvs) k = Some v"
    by (simp add: map_of_dict_of)
  then have "(k, v) \<in> set (rev kvs)"
    by (rule map_of_SomeD)
  with kv show "x \<in> set kvs" by simp
qed

lemma sorted_le_last: "sorted xs \<Longrightarrow> x \<in> set xs \<Longrightarrow> x \<le> last (xs :: 'a :: linorder list)"
  by (induction xs) auto

lemma sorted_objectives_greatest:
  assumes "x \<in> set xs"
    and "\<forall>y \<in> set xs. y \<noteq> x \<longrightarrow>
           get_default (created_at (snd y)) [] < get_default (created_at (snd x)) []"
  shows "\<exists>rest. sorted_objectives xs = x # rest"
proof -
  let ?k = "\<lambda>x. get_default (created_at (snd x)) []"
  let ?ys = "sort_key ?k (rev xs)"
  have s: "sorted (map ?k ?ys)" and st: "set ?ys = set xs"
    by simp_all
  have "length ?ys = length xs" by simp
  with assms(1) have ne: "?ys \<noteq> []"
    by (metis length_0_conv empty_iff empty_set)
  then have l: "last ?ys \<in> set xs"
    using st last_in_set by blast
  have "last ?ys = x"
  proof (rule ccontr)
    assume n: "last ?ys \<noteq> x"
    with assms(2) l have lt: "?k (last ?ys) < ?k x" by blast
    from assms(1) st have "?k x \<in> set (map ?k ?ys)" by auto
    with s have "?k x \<le> last (map ?k ?ys)"
      by (rule sorted_le_last)
    with ne have "?k x \<le> ?k (last ?ys)"
      by (simp add: last_map)
    with lt show False by simp
  qed
  with ne have "?ys = butlast ?ys @ [x]"
    by (metis append_butlast_last_id)
  then have "rev ?ys = rev (butlast ?ys @ [x])"
    by (rule arg_cong)
  also have "\<dots> = x # rev (butlast ?ys)"
    by simp
  finally have "rev ?ys = x # rev (butlast ?ys)" .
  then have "sorted_objectives xs = x # rev (butlast ?ys)"
    by (simp only: sorted_objectives_def)
  then show ?thesis ..
qed


lemma topic_progress_tbl_fold_progress:
  "topic_progress_tbl (fold (save_progress_row e u obj) tp d) =
     fold (\<lambda>entry. insert_or_replace tp_progress_id (progress_row e u obj entry)) tp
       (topic_progress_tbl d)"
  by (induction tp arbitrary: d)
    (auto simp: save_progress_row_def progress_row_def split: prod.splits)

lemma topic_progress_tbl_fold_quiz:
  "topic_progress_tbl (fold (save_quiz_row e u obj) qs d) = topic_progress_tbl d"
  by (induction qs arbitrary: d)
    (auto simp: save_quiz_row_def Let_def split: prod.splits option.splits)

lemma save_objective_rows_progress:
  "topic_progress_tbl (save_objective_rows e uid (oid, od) d) =
     fold (\<lambda>entry. insert_or_replace tp_progress_id (progress_row e uid oid entry))
       (get_default (topic_progress od) []) (topic_progress_tbl d)"
  by (simp add: save_objective_rows_def Let_def topic_progress_tbl_fold_progress
      topic_progress_tbl_fold_quiz get_default_def split: option.splits)

lemma fold_keeps_row:
  assumes "t \<notin> fst ` set entries"
    and "tbl = pre @ progress_row e uid oid (t, pr) # post"
    and "\<forall>y \<in> set post. tp_topic y \<noteq> t"
  shows "\<exists>pre' post'.
           fold (\<lambda>entry. insert_or_replace tp_progress_id (progress_row e uid oid entry))
             entries tbl = pre' @ progress_row e uid oid (t, pr) # post'
           \<and> (\<forall>y \<in> set post'. tp_topic y \<noteq> t)"
  using assms
proof (induction entries arbitrary: tbl pre post)
  case Nil
  then show ?case by auto
next
  case (Cons a entries)
  let ?r = "progress_row e uid oid (t, pr)"
  let ?n = "progress_row e uid oid a"
  from Cons.prems(1) have ne: "fst a \<noteq> t" and rest: "t \<notin> fst ` set entries"
    by auto
  have keep: "tp_progress_id ?r \<noteq> tp_progress_id ?n"
    using ne by (simp add: progress_row_def)
  have top: "tp_topic ?n \<noteq> t"
    using ne by (simp add: progress_row_def)
  have "insert_or_replace tp_progress_id ?n tbl =
          filter (\<lambda>r. tp_progress_id r \<noteq> tp_progress_id ?n) pre @ ?r #
          (filter (\<lambda>r. tp_progress_id r \<noteq> tp_progress_id ?n) post @ [?n])"
    using keep by (simp add: insert_or_replace_def Cons.prems(2))
  moreover have "\<forall>y \<in> set (filter (\<lambda>r. tp_progress_id r \<noteq> tp_progress_id ?n) post @ [?n]).
                   tp_topic y \<noteq> t"
    using Cons.prems(3) top by auto
  ultimately show ?case
    using Cons.IH [OF rest] by simp
qed

lemma fold_adds_row:
  assumes "distinct (map fst entries)" and "(t, pr) \<in> set entries"
  shows "\<exists>pre post.
           fold (\<lambda>entry. insert_or_replace tp_progress_id (progress_row e uid oid entry))
             entries tbl = pre @ progress_row e uid oid (t, pr) # post
           \<and> (\<forall>y \<in> set post. tp_topic y \<noteq> t)"
  using assms
proof (induction entries arbitrary: tbl)
  case Nil
  then show ?case by simp
next
  case (Cons a entries)
  show ?case
  proof (cases "a = (t, pr)")
    case True
    with Cons.prems(1) have rest: "t \<notin> fst ` set entries"
      by auto
    have "insert_or_replace tp_progress_id (progress_row e uid oid a) tbl =
            filter (\<lambda>r. tp_progress_id r \<noteq> tp_progress_id (progress_row e uid oid a)) tbl
            @ progress_row e uid oid (t, pr) # []"
      by (simp add: insert_or_replace_def True)
    from fold_keeps_row [OF rest this] show ?thesis
      by simp
  next
    case False
    with Cons.prems have "distinct (map fst entries)" and "(t, pr) \<in> set entries"
      by auto
    from Cons.IH [OF this] show ?thesis
      by simp
  qed
qed

lemma lookup_last_row:
  assumes "rows = pre @ r # post" and "\<forall>y \<in> set post. tp_topic y \<noteq> t"
    and "tp_topic r = t" and "Q r"
  shows "map_of (dict_of (map load_progress_doc (filter Q rows))) t
           = Some (snd (load_progress_doc r))"
proof -
  have "t \<notin> fst ` set (rev (map load_progress_doc (filter Q post)))"
    using assms(2) by (auto simp: load_progress_doc_def)
  then have "map_of (rev (map load_progress_doc (filter Q post))) t = None"
    by (simp add: map_of_eq_None_iff)
  then show ?thesis
    using assms(3,4)
    by (simp add: map_of_dict_of assms(1) map_add_def load_progress_doc_def)
qed


lemma mastery_levels_load_topic_progress_cong:
  "mastery_levels c1 = mastery_levels c2 \<Longrightarrow>
   mastery_levels (fold load_topic_progress tp c1) = mastery_levels (fold load_topic_progress tp c2)"
proof (induction tp arbitrary: c1 c2)
  case Nil
  then show ?case by simp
next
  case (Cons a tp)
  from Cons.prems have "mastery_levels (load_topic_progress a c1)
                          = mastery_levels (load_topic_progress a c2)"
    by (cases a) (simp add: load_topic_progress_def Let_def)
  then have "mastery_levels (fold load_topic_progress tp (load_topic_progress a c1))
               = mastery_levels (fold load_topic_progress tp (load_topic_progress a c2))"
    by (rule Cons.IH)
  then show ?case by simp
qed

lemma load_progress_selected:
  assumes "progress_store c = Some st"
    and "learning_objectives (load_user_progress e st (user_id c)) = Some objs"
    and "sorted_objectives objs = (oid, od) # rest"
    and "\<forall>plan. study_plan_doc od = Some plan \<longrightarrow>
           plan_topics plan \<noteq> None \<and> plan_learning_path plan \<noteq> None
           \<and> plan_estimated_time plan \<noteq> None \<and> plan_prerequisites plan \<noteq> None"
  shows "fst (load_progress e c)
         \<and> mastery_levels (snd (load_progress e c)) =
             mastery_levels (fold load_topic_progress (get_default (topic_progress od) []) c)"
proof -
  from assms(3) have ne: "objs \<noteq> []"
    by (auto simp: sorted_objectives_def)
  with assms(2) have ne2: "load_user_progress e st (user_id c) \<noteq> empty_user_data"
    by (auto simp: empty_user_data_def)
  let ?tp = "get_default (topic_progress od) []"
  let ?qs = "get_default (quizzes od) []"
  have "\<exists>c'. mastery_levels c' = mastery_levels c
           \<and> load_progress e c = (True, fold load_quiz ?qs (fold load_topic_progress ?tp c'))"
  proof (cases "study_plan_doc od")
    case None
    with assms(1-3) ne ne2 have "load_progress e c =
        (True, fold load_quiz ?qs (fold load_topic_progress ?tp
           (c\<lparr>objective_id := Some oid,
              learning_objective := get_default (title od) (Some [])\<rparr>)))"
      by (simp add: load_progress_def Let_def get_default_def)
    then show ?thesis
      by (intro exI [of _ "c\<lparr>objective_id := Some oid,
              learning_objective := get_default (title od) (Some [])\<rparr>"]) simp
  next
    case (Some plan)
    with assms(4) obtain ts lp et pr where
      "plan_topics plan = Some ts" "plan_learning_path plan = Some lp"
      "plan_estimated_time plan = Some et" "plan_prerequisites plan = Some pr"
      by auto
    with Some assms(1-3) ne ne2 have "load_progress e c =
        (True, fold load_quiz ?qs (fold load_topic_progress ?tp
           (c\<lparr>objective_id := Some oid,
              learning_objective := get_default (title od) (Some []),
              study_plan := Some \<lparr>topics = ts, learning_path = lp,
                                    estimated_time = et, prerequisites = pr\<rparr>\<rparr>)))"
      by (simp add: load_progress_def Let_def get_default_def)
    then show ?thesis
      by (intro exI [of _ "c\<lparr>objective_id := Some oid,
              learning_objective := get_default (title od) (Some []),
              study_plan := Some \<lparr>topics = ts, learning_path = lp,
                                    estimated_time = et, prerequisites = pr\<rparr>\<rparr>"]) simp
  qed
  then obtain c' where m: "mastery_levels c' = mastery_levels c"
    and l: "load_progress e c = (True, fold load_quiz ?qs (fold load_topic_progress ?tp c'))"
    by blast
  from m have "mastery_levels (fold load_topic_progress ?tp c')
                 = mastery_levels (fold load_topic_progress ?tp c)"
    by (rule mastery_levels_load_topic_progress_cong)
  then show ?thesis
    by (simp add: l mastery_levels_load_quiz)
qed

lemma load_objective_doc_facts:
  "fst (load_objective_doc d uid r) = lo_objective_id r"
  "created_at (snd (load_objective_doc d uid r)) = Some (lo_created_at r)"
  "topic_progress (snd (load_objective_doc d uid r)) =
     Some (dict_of (map load_progress_doc
            (filter (\<lambda>x. tp_user_id x = uid \<and> tp_objective_id x = lo_objective_id r)
               (topic_progress_tbl d))))"
  by (simp_all add: load_objective_doc_def Let_def)

lemma load_objective_doc_plan:
  assumes "study_plan_doc (snd (load_objective_doc d uid r)) = Some plan"
  shows "plan_topics plan \<noteq> None \<and> plan_learning_path plan \<noteq> None
           \<and> plan_estimated_time plan \<noteq> None \<and> plan_prerequisites plan \<noteq> None"
proof (cases "filter (\<lambda>p. sp_objective_id p = lo_objective_id r) (study_plans d)")
  case Nil
  with assms show ?thesis
    by (simp add: load_objective_doc_def Let_def)
next
  case (Cons a list)
  with assms show ?thesis
    by (auto simp: load_objective_doc_def Let_def)
qed


lemma get_default_simps: "get_default (Some v) d = v" "get_default None d = d"
  by (simp_all add: get_default_def)

lemma saved_database_facts:
  "filter (\<lambda>r. users_user_id r = user_id ctx) (users (db (saved_database e st ctx))) \<noteq> []"
  "learning_objectives_tbl (db (saved_database e st ctx)) =
     insert_or_replace lo_objective_id
       (objective_row e (user_id ctx)
          (if truthy (objective_id ctx) then get_default (objective_id ctx) [] else env_uuid e)
          (objective_data e ctx))
       (learning_objectives_tbl (db st))"
  "topic_progress_tbl (db (saved_database e st ctx)) =
     fold (\<lambda>entry. insert_or_replace tp_progress_id
             (progress_row e (user_id ctx)
                (if truthy (objective_id ctx) then get_default (objective_id ctx) []
                 else env_uuid e) entry))
       (topic_progress_data ctx) (topic_progress_tbl (db st))"
  "use_sqlite (saved_database e st ctx) = use_sqlite st"
  by (auto simp: saved_database_def save_objective_rows_objectives save_objective_rows_progress
      objective_data_def get_default_def)

lemma fresh_load_after_update_sqlite:
  assumes "progress_store ctx = Some st" and "use_sqlite st"
    and "truthy (objective_id ctx) \<or> truthy (learning_objective ctx)"
    and "study_plan ctx = Some p" and "t \<in> set (topics p)"
    and "env_io e = IoOk" and "env_io e' = IoOk"
    and "\<forall>r \<in> set (learning_objectives_tbl (db st)).
           lo_user_id r = user_id ctx \<longrightarrow>
           lo_objective_id r \<noteq> (if truthy (objective_id ctx)
                                  then get_default (objective_id ctx) [] else env_uuid e) \<longrightarrow>
           lo_created_at r < env_strftime e"
    and nq: "no_quiz_questions ctx"
  shows "fst (fresh_load e' (update_mastery_level e ctx t x c))
         \<and> mastery_levels (snd (fresh_load e' (update_mastery_level e ctx t x c))) t = Some x"
proof -
  define ctx2 where "ctx2 =
    (if c \<and> t \<notin> set (completed_topics ctx)
     then ctx\<lparr>mastery_levels := (mastery_levels ctx)(t \<mapsto> x),
              completed_topics := completed_topics ctx @ [t]\<rparr>
     else ctx\<lparr>mastery_levels := (mastery_levels ctx)(t \<mapsto> x)\<rparr>)"
  define uid where "uid = user_id ctx"
  define oid where "oid = (if truthy (objective_id ctx) then get_default (objective_id ctx) []
                           else env_uuid e)"
  have upd: "update_mastery_level e ctx t x c = snd (save_progress e ctx2)"
    by (simp add: update_mastery_level_def ctx2_def Let_def)
  have nq2: "no_quiz_questions ctx2"
    using nq by (simp add: ctx2_def)
  have c2: "progress_store ctx2 = Some st" "study_plan ctx2 = Some p"
    "truthy (objective_id ctx2) \<or> truthy (learning_objective ctx2)"
    "mastery_levels ctx2 t = Some x" "user_id ctx2 = uid"
    "objective_id ctx2 = objective_id ctx"
    using assms(1-4) by (auto simp: ctx2_def uid_def)
  have oid2: "(if truthy (objective_id ctx2) then get_default (objective_id ctx2) []
               else env_uuid e) = oid"
    by (simp add: oid_def c2(6))
  define st' where "st' = saved_database e st ctx2"
  define d2 where "d2 = db st'"
  have sp: "progress_store (snd (save_progress e ctx2)) = Some st'"
    "user_id (snd (save_progress e ctx2)) = uid"
    unfolding save_progress_sqlite_ok [OF c2(1) assms(2) assms(6) c2(3) nq2] st'_def
    by (simp_all add: c2(5))
  let ?fresh = "new_TutorContext uid st'"
  have fl: "fresh_load e' (update_mastery_level e ctx t x c) = load_progress e' ?fresh"
    by (simp add: upd sp fresh_load_def)
  have ps: "progress_store ?fresh = Some st'" and fu: "user_id ?fresh = uid"
    and em: "mastery_levels ?fresh t = None"
    by (simp_all add: new_TutorContext_def)
  \<comment> \<open>the objectives of the user after the save\<close>
  define row where "row = objective_row e uid oid (objective_data e ctx2)"
  define others where "others =
    filter (\<lambda>r. lo_user_id r = uid)
      (filter (\<lambda>r. lo_objective_id r \<noteq> oid) (learning_objectives_tbl (db st)))"
  define kvs where "kvs = map (load_objective_doc d2 uid) (others @ [row])"
  define cur where "cur = load_objective_doc d2 uid row"
  have rw: "lo_user_id row = uid" "lo_objective_id row = oid" "lo_created_at row = env_strftime e"
    by (simp_all add: row_def objective_row_def objective_data_def get_default_def)
  have tbl: "filter (\<lambda>r. lo_user_id r = uid) (learning_objectives_tbl d2) = others @ [row]"
    using saved_database_facts(2) [of e st ctx2, unfolded oid2 c2(5), folded row_def]
    by (simp add: d2_def st'_def insert_or_replace_def rw others_def)
  have us: "filter (\<lambda>r. users_user_id r = uid) (users (db st')) \<noteq> []"
    using saved_database_facts(1) [of ctx2 e st] by (simp add: st'_def c2(5))
  have sq: "use_sqlite st'"
    using assms(2) by (simp add: st'_def saved_database_facts(4))
  have ld: "learning_objectives (load_user_progress e' st' (user_id ?fresh)) = Some (dict_of kvs)"
    using us sq assms(7) tbl
    by (cases "filter (\<lambda>r. users_user_id r = uid) (users (db st'))")
      (simp_all add: load_user_progress_def load_from_sqlite_def fu kvs_def d2_def)
  \<comment> \<open>the session's objective is selected\<close>
  have curk: "fst cur = oid" "created_at (snd cur) = Some (env_strftime e)"
    by (simp_all add: cur_def load_objective_doc_facts rw)
  have "map_of (rev kvs) oid = Some (snd cur)"
    using curk(1) by (simp add: kvs_def cur_def [symmetric] prod_eq_iff)
  then have "map_of (dict_of kvs) oid = Some (snd cur)"
    by (simp add: map_of_dict_of)
  then have "(oid, snd cur) \<in> set (dict_of kvs)"
    by (rule map_of_SomeD)
  moreover have "cur = (oid, snd cur)"
    using curk(1) by (cases cur) simp
  ultimately have cin: "cur \<in> set (dict_of kvs)"
    by simp
  have older: "get_default (created_at (snd y)) [] < get_default (created_at (snd cur)) []"
    if "y \<in> set (dict_of kvs)" and "y \<noteq> cur" for y
  proof -
    from that(1) set_dict_of have "y \<in> set kvs" by blast
    with that(2) obtain r where r: "r \<in> set others" and y: "y = load_objective_doc d2 uid r"
      by (auto simp: kvs_def cur_def)
    from r have "lo_user_id r = user_id ctx" "lo_objective_id r \<noteq> oid"
      "r \<in> set (learning_objectives_tbl (db st))"
      by (auto simp: others_def uid_def)
    with assms(8) have "lo_created_at r < env_strftime e"
      by (simp add: oid_def)
    then show ?thesis
      by (simp add: y load_objective_doc_facts curk get_default_def)
  qed
  then have "\<forall>y \<in> set (dict_of kvs). y \<noteq> cur \<longrightarrow>
           get_default (created_at (snd y)) [] < get_default (created_at (snd cur)) []"
    by blast
  from sorted_objectives_greatest [OF cin this] obtain rest where
    so: "sorted_objectives (dict_of kvs) = (fst cur, snd cur) # rest"
    by auto
  have pk: "\<forall>plan. study_plan_doc (snd cur) = Some plan \<longrightarrow>
           plan_topics plan \<noteq> None \<and> plan_learning_path plan \<noteq> None
           \<and> plan_estimated_time plan \<noteq> None \<and> plan_prerequisites plan \<noteq> None"
    unfolding cur_def using load_objective_doc_plan by blast
  note lp = load_progress_selected [OF ps ld so pk]
  \<comment> \<open>the topic's row is the last one for the topic\<close>
  have din: "(t, \<lparr>mastery_level = Some x,
                 completed = Some (t \<in> set (completed_topics ctx2)), last_studied = None\<rparr>)
              \<in> set (topic_progress_data ctx2)"
    using map_of_topic_progress_data [OF c2(2), of t] assms(5) c2(4)
    by (auto simp: get_default_def dest: map_of_SomeD)
  let ?pr = "\<lparr>mastery_level = Some x,
                 completed = Some (t \<in> set (completed_topics ctx2)), last_studied = None\<rparr>"
  from fold_adds_row [OF distinct_topic_progress_data din, of e uid oid "topic_progress_tbl (db st)"]
  obtain pre post where
    rows: "topic_progress_tbl d2 = pre @ progress_row e uid oid (t, ?pr) # post"
    and post: "\<forall>y \<in> set post. tp_topic y \<noteq> t"
    using saved_database_facts(3) [of e st ctx2, unfolded oid2 c2(5)]
    by (auto simp: d2_def st'_def)
  have "map_of (dict_of (map load_progress_doc
            (filter (\<lambda>r. tp_user_id r = uid \<and> tp_objective_id r = oid)
               (topic_progress_tbl d2)))) t
          = Some (snd (load_progress_doc (progress_row e uid oid (t, ?pr))))"
    by (rule lookup_last_row [OF rows post]) (simp_all add: progress_row_def)
  then have tp: "map_of (get_default (topic_progress (snd cur)) []) t
                   = Some \<lparr>mastery_level = Some x,
                       completed = Some (t \<in> set (completed_topics ctx2)),
                       last_studied = Some (env_isoformat e)\<rparr>"
    by (simp add: cur_def load_objective_doc_facts rw get_default_def load_progress_doc_def
        progress_row_def)
  have dt: "distinct (map fst (get_default (topic_progress (snd cur)) []))"
    by (simp add: cur_def load_objective_doc_facts get_default_def distinct_dict_of)
  have "mastery_levels (fold load_topic_progress (get_default (topic_progress (snd cur)) [])
          ?fresh) t = Some x"
    by (simp add: mastery_levels_load_topic_progress [OF dt] tp get_default_simps)
  with lp show ?thesis
    unfolding fl by simp
qed

text \<open>
  Claim C1, as amended. For a session that has an objective id or a learning objective,
  a study plan whose topics include the topic, and no quiz with questions among its
  quiz results, when neither the write nor the read raises and, on the relational
  backend, every other objective stored for the user has an earlier \<^verbatim>\<open>created_at\<close> than
  the time of the save: \<^verbatim>\<open>update_mastery_level(topic, x, completed)\<close> followed by a
  fresh load of the same user succeeds and yields mastery level exactly \<open>x\<close> for the
  topic.
\<close>

theorem mastery_level_round_trip:
  assumes "progress_store ctx = Some st"
    and "truthy (objective_id ctx) \<or> truthy (learning_objective ctx)"
    and "study_plan ctx = Some p" and "t \<in> set (topics p)"
    and "no_quiz_questions ctx"
    and "env_io e = IoOk" and "env_io e' = IoOk"
    and "use_sqlite st \<longrightarrow>
           (\<forall>r \<in> set (learning_objectives_tbl (db st)).
              lo_user_id r = user_id ctx \<longrightarrow>
              lo_objective_id r \<noteq> (if truthy (objective_id ctx)
                                     then get_default (objective_id ctx) [] else env_uuid e) \<longrightarrow>
              lo_created_at r < env_strftime e)"
  shows "fst (fresh_load e' (update_mastery_level e ctx t x c))
         \<and> mastery_levels (snd (fresh_load e' (update_mastery_level e ctx t x c))) t = Some x"
proof (cases "use_sqlite st")
  case True
  with assms(8) have "\<forall>r \<in> set (learning_objectives_tbl (db st)).
           lo_user_id r = user_id ctx \<longrightarrow>
           lo_objective_id r \<noteq> (if truthy (objective_id ctx)
                                  then get_default (objective_id ctx) [] else env_uuid e) \<longrightarrow>
           lo_created_at r < env_strftime e"
    by simp
  from fresh_load_after_update_sqlite [OF assms(1) True assms(2,3,4) assms(6,7) this assms(5)]
  show ?thesis .
next
  case False
  from fresh_load_after_update [OF assms(1) False assms(2,3) assms(6,7) assms(5), of t x c]
    assms(4)
  show ?thesis by simp
qed

lemma bob_session_facts:
  "progress_store bob_session = Some json_store" "\<not> use_sqlite json_store"
  "truthy (objective_id bob_session) \<or> truthy (learning_objective bob_session)"
  "study_plan bob_session = Some algebra_plan" "env_io env_ok = IoOk"
  "no_quiz_questions bob_session"
  by (simp_all add: bob_session_def new_TutorContext_def truthy_def json_store_def env_ok_def
      no_quiz_questions_def)

lemma bob_sqlite_session_facts:
  "progress_store (bob_session\<lparr>progress_store := Some sqlite_store\<rparr>) = Some sqlite_store"
  "truthy (objective_id (bob_session\<lparr>progress_store := Some sqlite_store\<rparr>))
   \<or> truthy (learning_objective (bob_session\<lparr>progress_store := Some sqlite_store\<rparr>))"
  "study_plan (bob_session\<lparr>progress_store := Some sqlite_store\<rparr>) = Some algebra_plan"
  "use_sqlite sqlite_store" "learning_objectives_tbl (db sqlite_store) = []"
  "no_quiz_questions (bob_session\<lparr>progress_store := Some sqlite_store\<rparr>)"
  by (simp_all add: bob_session_def new_TutorContext_def truthy_def sqlite_store_def
      empty_database_def no_quiz_questions_def)

theorem mastery_level_round_trip_witness:
  "progress_store bob_session = Some json_store \<and> \<not> use_sqlite json_store
   \<and> (truthy (objective_id bob_session) \<or> truthy (learning_objective bob_session))
   \<and> study_plan bob_session = Some algebra_plan \<and> ''Fractions'' \<in> set (topics algebra_plan)
   \<and> no_quiz_questions bob_session \<and> env_io env_ok = IoOk
   \<and> fst (fresh_load env_ok (update_mastery_level env_ok bob_session ''Fractions'' 0.8 True))
   \<and> mastery_levels
        (snd (fresh_load env_ok (update_mastery_level env_ok bob_session ''Fractions'' 0.8 True)))
        ''Fractions'' = Some 0.8
   \<and> progress_store (bob_session\<lparr>progress_store := Some sqlite_store\<rparr>) = Some sqlite_store
   \<and> use_sqlite sqlite_store \<and> learning_objectives_tbl (db sqlite_store) = []
   \<and> no_quiz_questions (bob_session\<lparr>progress_store := Some sqlite_store\<rparr>)
   \<and> fst (fresh_load env_ok (update_mastery_level env_ok
              (bob_session\<lparr>progress_store := Some sqlite_store\<rparr>) ''Fractions'' 0.8 True))
   \<and> mastery_levels
        (snd (fresh_load env_ok (update_mastery_level env_ok
              (bob_session\<lparr>progress_store := Some sqlite_store\<rparr>) ''Fractions'' 0.8 True)))
        ''Fractions'' = Some 0.8"
proof -
  have t: "''Fractions'' \<in> set (topics algebra_plan)"
    by (simp add: algebra_plan_def)
  have hj: "use_sqlite json_store \<longrightarrow>
           (\<forall>r \<in> set (learning_objectives_tbl (db json_store)).
              lo_user_id r = user_id bob_session \<longrightarrow>
              lo_objective_id r \<noteq> (if truthy (objective_id bob_session)
                   then get_default (objective_id bob_session) [] else env_uuid env_ok) \<longrightarrow>
              lo_created_at r < env_strftime env_ok)"
    using bob_session_facts(2) by simp
  have hq: "use_sqlite sqlite_store \<longrightarrow>
           (\<forall>r \<in> set (learning_objectives_tbl (db sqlite_store)).
              lo_user_id r = user_id (bob_session\<lparr>progress_store := Some sqlite_store\<rparr>) \<longrightarrow>
              lo_objective_id r \<noteq>
                (if truthy (objective_id (bob_session\<lparr>progress_store := Some sqlite_store\<rparr>))
                 then get_default
                        (objective_id (bob_session\<lparr>progress_store := Some sqlite_store\<rparr>)) []
                 else env_uuid env_ok) \<longrightarrow>
              lo_created_at r < env_strftime env_ok)"
    using bob_sqlite_session_facts(5) by simp
  note j = mastery_level_round_trip [OF bob_session_facts(1,3,4) t bob_session_facts(6)
      bob_session_facts(5) bob_session_facts(5) hj, where x = "0.8" and c = True]
  note q = mastery_level_round_trip [OF bob_sqlite_session_facts(1-3) t
      bob_sqlite_session_facts(6) bob_session_facts(5) bob_session_facts(5) hq,
      where x = "0.8" and c = True]
  from bob_session_facts t bob_sqlite_session_facts(1,4,5,6) j q show ?thesis
    by (intro conjI) blast+
qed

text \<open>
  The claim as stated fails: a session with neither an objective id nor a learning
  objective has nothing to save. Recording mastery 0.5 for a topic in a new session and
  loading afresh finds no stored data and no mastery level for the topic.
\<close>

theorem mastery_level_round_trip_counterexample:
  "\<not> fst (fresh_load env_ok
           (update_mastery_level env_ok (new_TutorContext ''alice'' json_store)
              ''Fractions'' 0.5 False))
   \<and> mastery_levels
        (snd (fresh_load env_ok
           (update_mastery_level env_ok (new_TutorContext ''alice'' json_store)
              ''Fractions'' 0.5 False)))
        ''Fractions'' = None"
proof -
  have "update_mastery_level env_ok (new_TutorContext ''alice'' json_store) ''Fractions'' 0.5 False
          = (new_TutorContext ''alice'' json_store)
              \<lparr>mastery_levels := [''Fractions'' \<mapsto> 0.5]\<rparr>"
    by (simp add: update_mastery_level_def save_progress_def truthy_def new_TutorContext_def
        Let_def)
  moreover have "load_progress env_ok (new_TutorContext ''alice'' json_store)
                   = (False, new_TutorContext ''alice'' json_store)"
    by (simp add: load_progress_def load_user_progress_def load_from_json_def json_store_def
        get_user_json_path_def new_TutorContext_def Let_def)
  ultimately show ?thesis
    by (simp add: fresh_load_def) (simp add: new_TutorContext_def)
qed

text \<open>
  Nor is a mastery level persisted for a topic outside the study plan:
  \<^verbatim>\<open>save_progress\<close> writes topic progress for the topics of the plan only.
\<close>

lemma mastery_level_outside_plan:
  "fst (fresh_load env_ok (update_mastery_level env_ok bob_session ''Calculus'' 0.5 False))
   \<and> mastery_levels
        (snd (fresh_load env_ok (update_mastery_level env_ok bob_session ''Calculus'' 0.5 False)))
        ''Calculus'' = None"
  using fresh_load_after_update [OF bob_session_facts(1-5) bob_session_facts(5,6),
      where t = "''Calculus''" and x = "0.5" and c = False]
  by (simp add: algebra_plan_def)

subsection \<open>Loading a plan with missing fields\<close>

lemma load_progress_rejects_plan:
  assumes "progress_store ctx = Some st"
    and "sorted_objectives
           (get_default (learning_objectives (load_user_progress e st (user_id ctx))) [])
         = (oid, od) # rest"
    and "study_plan_doc od = Some plan"
    and "plan_topics plan = None \<or> plan_learning_path plan = None
         \<or> plan_estimated_time plan = None \<or> plan_prerequisites plan = None"
  shows "load_progress e ctx =
           (False, ctx\<lparr>objective_id := Some oid,
                       learning_objective := get_default (title od) (Some [])\<rparr>)"
proof -
  from assms(2) have ne:
    "get_default (learning_objectives (load_user_progress e st (user_id ctx))) [] \<noteq> []"
    by (auto simp: sorted_objectives_def)
  then have ne2: "load_user_progress e st (user_id ctx) \<noteq> empty_user_data"
    by (auto simp: empty_user_data_def get_default_def)
  show ?thesis
    using assms ne ne2
    by (auto simp: load_progress_def Let_def split: option.splits)
qed

text \<open>
  Claim C4, as amended. When the most recent stored objective has a study plan that
  lacks one of \<^verbatim>\<open>topics\<close>, \<^verbatim>\<open>learning_path\<close>, \<^verbatim>\<open>estimated_time\<close>, \<^verbatim>\<open>prerequisites\<close>,
  \<^verbatim>\<open>load_progress\<close> returns \<^verbatim>\<open>False\<close>; by then it has set the session's objective id
  and learning objective from the stored objective (the learning objective from the
  stored title, \<^verbatim>\<open>''\<close> when there is none), and it changes nothing else (study plan,
  mastery levels, completed topics and quiz results are as before). For a session that
  so has no study plan, \<^verbatim>\<open>complete_learning_objective\<close> installs the fixed four-topic
  default plan when the learning objective so loaded is non-empty. When it is empty or
  \<^verbatim>\<open>null\<close>, \<^verbatim>\<open>complete_learning_objective\<close> raises \<^verbatim>\<open>ValueError\<close> and leaves the session
  as the load left it, without a plan.
\<close>

theorem load_progress_invalid_plan:
  assumes "progress_store ctx = Some st"
    and "sorted_objectives
           (get_default (learning_objectives (load_user_progress e st (user_id ctx))) [])
         = (oid, od) # rest"
    and "study_plan_doc od = Some plan"
    and "plan_topics plan = None \<or> plan_learning_path plan = None
         \<or> plan_estimated_time plan = None \<or> plan_prerequisites plan = None"
  shows "load_progress e ctx =
           (False, ctx\<lparr>objective_id := Some oid,
                       learning_objective := get_default (title od) (Some [])\<rparr>)
         \<and> (study_plan ctx = None \<longrightarrow>
              complete_learning_objective_setup (snd (load_progress e ctx)) =
                (if truthy (get_default (title od) (Some []))
                 then Inr ((snd (load_progress e ctx))\<lparr>study_plan := Some
                        \<lparr>topics = [''Introduction'', ''Key Concepts'', ''Applications'',
                                    ''Advanced Topics''],
                         learning_path = [''Introduction'', ''Key Concepts'',
                                          ''Applications'', ''Advanced Topics''],
                         estimated_time = Some [(''Introduction'', ''30 minutes''),
                           (''Key Concepts'', ''30 minutes''),
                           (''Applications'', ''30 minutes''),
                           (''Advanced Topics'', ''30 minutes'')],
                         prerequisites = Some []\<rparr>\<rparr>)
                 else Inl ValueError))
         \<and> (\<not> truthy (get_default (title od) (Some [])) \<longrightarrow>
              complete_learning_objective run planner prompt e2 max_turns
                  (snd (load_progress e ctx)) =
                Some (Inl ValueError, snd (load_progress e ctx)))"
  unfolding load_progress_rejects_plan [OF assms]
  by (simp add: complete_learning_objective_def complete_learning_objective_setup_def
      create_default_study_plan_def Let_def)

lemma carol_facts:
  "progress_store (new_TutorContext ''carol'' json_store) = Some json_store"
  "sorted_objectives (get_default (learning_objectives
      (load_user_progress env_ok json_store (user_id (new_TutorContext ''carol'' json_store))))
      []) = (''obj-7'', carol_objective) # []"
  "study_plan_doc carol_objective = Some (empty_plan_doc
        \<lparr>plan_topics := Some [''Atoms''], plan_learning_path := Some [''Atoms''],
         plan_prerequisites := Some (Some [])\<rparr>)"
  "plan_estimated_time (empty_plan_doc
        \<lparr>plan_topics := Some [''Atoms''], plan_learning_path := Some [''Atoms''],
         plan_prerequisites := Some (Some [])\<rparr>) = None"
  by (simp_all add: new_TutorContext_def json_store_def load_user_progress_def
      load_from_json_def env_ok_def get_user_json_path_def get_default_def
      empty_user_data_def sorted_objectives_single carol_objective_def empty_plan_doc_def)

lemma dave_facts:
  "progress_store (new_TutorContext ''dave'' dave_store) = Some dave_store"
  "sorted_objectives (get_default (learning_objectives
      (load_user_progress env_ok dave_store (user_id (new_TutorContext ''dave'' dave_store))))
      []) = (''obj-9'', dave_objective) # []"
  "study_plan_doc dave_objective = Some (empty_plan_doc
        \<lparr>plan_topics := Some [''Cells''], plan_estimated_time := Some (Some []),
         plan_prerequisites := Some (Some [])\<rparr>)"
  "plan_learning_path (empty_plan_doc
        \<lparr>plan_topics := Some [''Cells''], plan_estimated_time := Some (Some []),
         plan_prerequisites := Some (Some [])\<rparr>) = None"
  by (simp_all add: new_TutorContext_def dave_store_def load_user_progress_def
      load_from_json_def env_ok_def get_user_json_path_def get_default_def
      empty_user_data_def sorted_objectives_single dave_objective_def empty_plan_doc_def)

text \<open>\<^verbatim>\<open>carol\<close>'s stored plan lacks \<^verbatim>\<open>estimated_time\<close> and her objective is titled: the
  default plan is installed. \<^verbatim>\<open>dave\<close>'s stored plan lacks \<^verbatim>\<open>learning_path\<close> and his
  objective's title is \<^verbatim>\<open>null\<close>: \<^verbatim>\<open>ValueError\<close>, and no plan.\<close>

theorem load_progress_invalid_plan_witness:
  "progress_store (new_TutorContext ''carol'' json_store) = Some json_store
   \<and> sorted_objectives (get_default (learning_objectives
        (load_user_progress env_ok json_store (user_id (new_TutorContext ''carol'' json_store))))
        []) = [(''obj-7'', carol_objective)]
   \<and> study_plan_doc carol_objective = Some (empty_plan_doc
        \<lparr>plan_topics := Some [''Atoms''], plan_learning_path := Some [''Atoms''],
         plan_prerequisites := Some (Some [])\<rparr>)
   \<and> plan_estimated_time (empty_plan_doc
        \<lparr>plan_topics := Some [''Atoms''], plan_learning_path := Some [''Atoms''],
         plan_prerequisites := Some (Some [])\<rparr>) = None
   \<and> study_plan (new_TutorContext ''carol'' json_store) = None
   \<and> load_progress env_ok (new_TutorContext ''carol'' json_store) =
       (False, (new_TutorContext ''carol'' json_store)
                 \<lparr>objective_id := Some ''obj-7'', learning_objective := Some ''Chemistry''\<rparr>)
   \<and> complete_learning_objective_setup
         (snd (load_progress env_ok (new_TutorContext ''carol'' json_store))) =
       Inr ((new_TutorContext ''carol'' json_store)
              \<lparr>objective_id := Some ''obj-7'', learning_objective := Some ''Chemistry'',
               study_plan := Some
                 \<lparr>topics = [''Introduction'', ''Key Concepts'', ''Applications'',
                             ''Advanced Topics''],
                  learning_path = [''Introduction'', ''Key Concepts'', ''Applications'',
                                   ''Advanced Topics''],
                  estimated_time = Some [(''Introduction'', ''30 minutes''),
                    (''Key Concepts'', ''30 minutes''), (''Applications'', ''30 minutes''),
                    (''Advanced Topics'', ''30 minutes'')],
                  prerequisites = Some []\<rparr>\<rparr>)
   \<and> progress_store (new_TutorContext ''dave'' dave_store) = Some dave_store
   \<and> sorted_objectives (get_default (learning_objectives
        (load_user_progress env_ok dave_store (user_id (new_TutorContext ''dave'' dave_store))))
        []) = [(''obj-9'', dave_objective)]
   \<and> study_plan_doc dave_objective = Some (empty_plan_doc
        \<lparr>plan_topics := Some [''Cells''], plan_estimated_time := Some (Some []),
         plan_prerequisites := Some (Some [])\<rparr>)
   \<and> plan_learning_path (empty_plan_doc
        \<lparr>plan_topics := Some [''Cells''], plan_estimated_time := Some (Some []),
         plan_prerequisites := Some (Some [])\<rparr>) = None
   \<and> \<not> truthy (get_default (title dave_objective) (Some []))
   \<and> load_progress env_ok (new_TutorContext ''dave'' dave_store) =
       (False, (new_TutorContext ''dave'' dave_store)
                 \<lparr>objective_id := Some ''obj-9'', learning_objective := None\<rparr>)
   \<and> complete_learning_objective ping_pong 0 (\<lambda>c. ''start'') env_ok 30
         (snd (load_progress env_ok (new_TutorContext ''dave'' dave_store))) =
       Some (Inl ValueError, (new_TutorContext ''dave'' dave_store)
                 \<lparr>objective_id := Some ''obj-9'', learning_objective := None\<rparr>)
   \<and> study_plan ((new_TutorContext ''dave'' dave_store)
                 \<lparr>objective_id := Some ''obj-9'', learning_objective := None\<rparr>) = None"
proof -
  have np: "study_plan (new_TutorContext ''carol'' json_store) = None"
    by (simp add: new_TutorContext_def)
  have ti: "get_default (title carol_objective) (Some []) = Some ''Chemistry''"
    by (simp add: carol_objective_def get_default_def)
  have tr: "truthy (Some ''Chemistry'')"
    by (simp add: truthy_def)
  note th = load_progress_invalid_plan [OF carol_facts(1-3) disjI2 [OF disjI2 [OF disjI1]],
      OF carol_facts(4), unfolded ti]
  from th have a: "load_progress env_ok (new_TutorContext ''carol'' json_store) =
       (False, (new_TutorContext ''carol'' json_store)
                 \<lparr>objective_id := Some ''obj-7'', learning_objective := Some ''Chemistry''\<rparr>)"
    by (rule conjunct1)
  from conjunct1 [OF conjunct2 [OF th], rule_format, OF np, unfolded if_P [OF tr]]
  have "complete_learning_objective_setup
         (snd (load_progress env_ok (new_TutorContext ''carol'' json_store))) =
       Inr ((snd (load_progress env_ok (new_TutorContext ''carol'' json_store)))
              \<lparr>study_plan := Some
                 \<lparr>topics = [''Introduction'', ''Key Concepts'', ''Applications'',
                             ''Advanced Topics''],
                  learning_path = [''Introduction'', ''Key Concepts'', ''Applications'',
                                   ''Advanced Topics''],
                  estimated_time = Some [(''Introduction'', ''30 minutes''),
                    (''Key Concepts'', ''30 minutes''), (''Applications'', ''30 minutes''),
                    (''Advanced Topics'', ''30 minutes'')],
                  prerequisites = Some []\<rparr>\<rparr>)" .
  then have b: "complete_learning_objective_setup
         (snd (load_progress env_ok (new_TutorContext ''carol'' json_store))) =
       Inr ((new_TutorContext ''carol'' json_store)
              \<lparr>objective_id := Some ''obj-7'', learning_objective := Some ''Chemistry'',
               study_plan := Some
                 \<lparr>topics = [''Introduction'', ''Key Concepts'', ''Applications'',
                             ''Advanced Topics''],
                  learning_path = [''Introduction'', ''Key Concepts'', ''Applications'',
                                   ''Advanced Topics''],
                  estimated_time = Some [(''Introduction'', ''30 minutes''),
                    (''Key Concepts'', ''30 minutes''), (''Applications'', ''30 minutes''),
                    (''Advanced Topics'', ''30 minutes'')],
                  prerequisites = Some []\<rparr>\<rparr>)"
    unfolding a by simp
  have td: "get_default (title dave_objective) (Some []) = None"
    by (simp add: dave_objective_def get_default_def)
  have nt: "\<not> truthy (get_default (title dave_objective) (Some []))"
    unfolding td by (simp add: truthy_def)
  note tv = load_progress_invalid_plan [OF dave_facts(1-3) disjI2 [OF disjI1],
      OF dave_facts(4), where run = ping_pong and planner = 0 and prompt = "\<lambda>c. ''start''"
      and ?e2.0 = env_ok and max_turns = 30]
  from tv have c: "load_progress env_ok (new_TutorContext ''dave'' dave_store) =
       (False, (new_TutorContext ''dave'' dave_store)
                 \<lparr>objective_id := Some ''obj-9'', learning_objective := None\<rparr>)"
    unfolding td by (rule conjunct1)
  from tv nt have "complete_learning_objective ping_pong 0 (\<lambda>c. ''start'') env_ok 30
         (snd (load_progress env_ok (new_TutorContext ''dave'' dave_store))) =
       Some (Inl ValueError, snd (load_progress env_ok (new_TutorContext ''dave'' dave_store)))"
    by blast
  then have d: "complete_learning_objective ping_pong 0 (\<lambda>c. ''start'') env_ok 30
         (snd (load_progress env_ok (new_TutorContext ''dave'' dave_store))) =
       Some (Inl ValueError, (new_TutorContext ''dave'' dave_store)
                 \<lparr>objective_id := Some ''obj-9'', learning_objective := None\<rparr>)"
    unfolding c by simp
  have e: "study_plan ((new_TutorContext ''dave'' dave_store)
                 \<lparr>objective_id := Some ''obj-9'', learning_objective := None\<rparr>) = None"
    by (simp add: new_TutorContext_def)
  from carol_facts np a b dave_facts nt c d e show ?thesis
    by (intro conjI)
qed

text \<open>
  The claim as stated fails: the failed load has changed the session. A new session for
  \<^verbatim>\<open>carol\<close>, whose stored plan lacks \<^verbatim>\<open>estimated_time\<close>, has no objective id before the
  load and the stored one after it.
\<close>

theorem load_progress_invalid_plan_counterexample:
  "\<not> fst (load_progress env_ok (new_TutorContext ''carol'' json_store))
   \<and> objective_id (new_TutorContext ''carol'' json_store) = None
   \<and> objective_id (snd (load_progress env_ok (new_TutorContext ''carol'' json_store)))
       = Some ''obj-7''
   \<and> learning_objective (new_TutorContext ''carol'' json_store) = None
   \<and> learning_objective (snd (load_progress env_ok (new_TutorContext ''carol'' json_store)))
       = Some ''Chemistry''"
proof -
  have ti: "get_default (title carol_objective) (Some []) = Some ''Chemistry''"
    by (simp add: carol_objective_def get_default_def)
  show ?thesis
    unfolding load_progress_rejects_plan [OF carol_facts(1-3) disjI2 [OF disjI2 [OF disjI1]],
        OF carol_facts(4)]
    by (simp add: ti) (simp add: new_TutorContext_def)
qed

subsection \<open>Two stored objectives\<close>

lemma load_progress_objective_id:
  assumes "progress_store c = Some st"
    and "learning_objectives (load_user_progress e st (user_id c)) = Some objs"
    and "sorted_objectives objs = (oid, od) # rest"
  shows "objective_id (snd (load_progress e c)) = Some oid"
proof -
  from assms(3) have ne: "objs \<noteq> []"
    by (auto simp: sorted_objectives_def)
  with assms(2) have ne2: "load_user_progress e st (user_id c) \<noteq> empty_user_data"
    by (auto simp: empty_user_data_def)
  show ?thesis
    using assms ne ne2
    by (auto simp: load_progress_def Let_def get_default_def objective_id_load_topic_progress
        objective_id_load_quiz split: option.splits)
qed

text \<open>
  What does hold on both backends. A user record with two learning objectives, each
  with a \<^verbatim>\<open>created_at\<close>, is saved (the save returns \<^verbatim>\<open>True\<close>; on the relational backend
  the user has no other objective in the database). A load that does not raise returns
  two objectives under the two ids, with the timestamps and titles saved (on the
  flat-file backend: the two objectives as they were saved), and a new session's
  \<^verbatim>\<open>load_progress\<close> selects the objective with the later \<^verbatim>\<open>created_at\<close>, whichever comes
  first in the record (with equal timestamps: the first).
\<close>

lemma two_objectives_ids_and_selection:
  assumes "learning_objectives data = Some [(a, oa), (b, ob)]" and "a \<noteq> b"
    and "created_at oa = Some ca" and "created_at ob = Some cb"
    and "save_user_progress e st uid data = (True, st')" and "env_io e' = IoOk"
    and "use_sqlite st \<longrightarrow>
           (\<forall>r \<in> set (learning_objectives_tbl (db st)).
              lo_user_id r = uid \<longrightarrow> lo_objective_id r = a \<or> lo_objective_id r = b)"
  shows "\<exists>da db'.
           learning_objectives (load_user_progress e' st' uid) = Some [(a, da), (b, db')]
           \<and> created_at da = Some ca \<and> created_at db' = Some cb
           \<and> get_default (title da) (Some []) = get_default (title oa) (Some [])
           \<and> get_default (title db') (Some []) = get_default (title ob) (Some [])
           \<and> (\<not> use_sqlite st \<longrightarrow> da = oa \<and> db' = ob)
           \<and> objective_id (snd (load_progress e' (new_TutorContext uid st')))
               = Some (if ca < cb then b else a)"
proof -
  from assms(5) have "env_io e = IoOk \<and> json_serializable data"
    by (rule save_user_progress_True)
  then have io: "env_io e = IoOk" and js: "json_serializable data"
    by simp_all
  have "\<exists>da db'.
           learning_objectives (load_user_progress e' st' uid) = Some [(a, da), (b, db')]
           \<and> created_at da = Some ca \<and> created_at db' = Some cb
           \<and> get_default (title da) (Some []) = get_default (title oa) (Some [])
           \<and> get_default (title db') (Some []) = get_default (title ob) (Some [])
           \<and> (\<not> use_sqlite st \<longrightarrow> da = oa \<and> db' = ob)"
  proof (cases "use_sqlite st")
    case True
    with assms(7) have others: "\<forall>r \<in> set (learning_objectives_tbl (db st)).
           lo_user_id r = uid \<longrightarrow> lo_objective_id r = a \<or> lo_objective_id r = b"
      by simp
    from sqlite_two_objectives [OF True io assms(6) assms(1) assms(2) others js] assms(3,4,5) True
    show ?thesis
      by (auto simp: get_default_def)
  next
    case False
    from json_saved_objectives [OF False io assms(6) assms(1) js, of uid] assms(3,4,5) False
    show ?thesis
      by auto
  qed
  then obtain da db' where ld:
      "learning_objectives (load_user_progress e' st' uid) = Some [(a, da), (b, db')]"
    and ts: "created_at da = Some ca" "created_at db' = Some cb"
    and rest: "get_default (title da) (Some []) = get_default (title oa) (Some [])"
      "get_default (title db') (Some []) = get_default (title ob) (Some [])"
      "\<not> use_sqlite st \<longrightarrow> da = oa \<and> db' = ob"
    by blast
  have ps: "progress_store (new_TutorContext uid st') = Some st'"
    and uid: "user_id (new_TutorContext uid st') = uid"
    by (simp_all add: new_TutorContext_def)
  have "objective_id (snd (load_progress e' (new_TutorContext uid st')))
               = Some (if ca < cb then b else a)"
  proof (cases "ca < cb")
    case True
    with ts have "sorted_objectives [(a, da), (b, db')] = (b, db') # [(a, da)]"
      by (simp add: sorted_objectives_pair get_default_def)
    from load_progress_objective_id [OF ps _ this] ld True show ?thesis
      by (simp add: uid)
  next
    case False
    with ts have "sorted_objectives [(a, da), (b, db')] = (a, da) # [(b, db')]"
      by (simp add: sorted_objectives_pair get_default_def)
    from load_progress_objective_id [OF ps _ this] ld False show ?thesis
      by (simp add: uid)
  qed
  with ld ts rest show ?thesis by blast
qed

text \<open>
  Claim C6, at a record the relational backend does not give back. The record
  \<open>two_quiz_objectives\<close> of user \<^verbatim>\<open>bob\<close> has the objectives \<^verbatim>\<open>obj-1\<close> and \<^verbatim>\<open>obj-3\<close>, each
  with progress on the topic \<^verbatim>\<open>Fractions\<close> and a quiz under the id
  \<^verbatim>\<open>bob_Fractions_quiz\<close>. Both backends save it (the result is \<^verbatim>\<open>True\<close>). Loaded from the
  flat file, the record has both objectives as saved. Loaded from the database, it has
  both ids, each with its title, timestamp, plan and topic progress (the time of the
  save where the record has no timestamp), but \<^verbatim>\<open>obj-1\<close> comes back without its quiz:
  \<^verbatim>\<open>INSERT OR REPLACE\<close> on the table \<^verbatim>\<open>quizzes\<close>, whose key is the quiz id alone, has
  replaced the row of \<^verbatim>\<open>obj-1\<close> by that of \<^verbatim>\<open>obj-3\<close>. The selection of the most recent
  objective is right on both: \<^verbatim>\<open>obj-3\<close>.
\<close>

theorem two_objectives_shared_quiz_id:
  "fst (save_user_progress env_ok json_store ''bob'' two_quiz_objectives)
   \<and> fst (save_user_progress env_ok sqlite_store ''bob'' two_quiz_objectives)
   \<and> learning_objectives (load_user_progress env_ok
        (snd (save_user_progress env_ok json_store ''bob'' two_quiz_objectives)) ''bob'')
       = Some [(''obj-1'', first_quiz_objective), (''obj-3'', second_quiz_objective)]
   \<and> quizzes first_quiz_objective = Some [(''bob_Fractions_quiz'', fractions_quiz 0.5)]
   \<and> learning_objectives (load_user_progress env_ok
        (snd (save_user_progress env_ok sqlite_store ''bob'' two_quiz_objectives)) ''bob'')
       = Some [(''obj-1'', first_quiz_objective
                 \<lparr>study_plan_doc := Some ((study_plan_data (Some algebra_plan))
                    \<lparr>plan_created_at := Some ''2024-03-02T09:00:00.000001'',
                     plan_updated_at := Some ''2024-03-02T09:00:00.000001''\<rparr>),
                  topic_progress := Some [(''Fractions'',
                    \<lparr>mastery_level = Some 0.5, completed = Some False,
                     last_studied = Some ''2024-03-02T09:00:00.000001''\<rparr>)],
                  quizzes := Some []\<rparr>),
               (''obj-3'', second_quiz_objective
                 \<lparr>study_plan_doc := Some ((study_plan_data (Some algebra_plan))
                    \<lparr>plan_created_at := Some ''2024-03-02T09:00:00.000001'',
                     plan_updated_at := Some ''2024-03-02T09:00:00.000001''\<rparr>),
                  topic_progress := Some [(''Fractions'',
                    \<lparr>mastery_level = Some 0.9, completed = Some True,
                     last_studied = Some ''2024-03-02T09:00:00.000001''\<rparr>)],
                  quizzes := Some [(''bob_Fractions_quiz'',
                    \<lparr>quiz_topic = Some ''Fractions'', quiz_questions = Some [],
                     quiz_time_limit = None,
                     quiz_created_at = Some ''2024-03-02T09:00:00.000001'',
                     results = Some \<lparr>answers = Some [(''0'', ''1/2'')], score = Some 0.9,
                       feedback = Some [],
                       results_created_at = Some ''2024-03-02T09:00:00.000001''\<rparr>\<rparr>)]\<rparr>)]
   \<and> objective_id (snd (load_progress env_ok (new_TutorContext ''bob''
        (snd (save_user_progress env_ok json_store ''bob'' two_quiz_objectives)))))
       = Some ''obj-3''
   \<and> objective_id (snd (load_progress env_ok (new_TutorContext ''bob''
        (snd (save_user_progress env_ok sqlite_store ''bob'' two_quiz_objectives)))))
       = Some ''obj-3''"
proof -
  have io: "env_io env_ok = IoOk"
    by (simp add: env_ok_def)
  have js: "\<not> use_sqlite json_store" and sq: "use_sqlite sqlite_store"
    and tbl: "learning_objectives_tbl (db sqlite_store) = []"
    by (simp_all add: json_store_def sqlite_store_def empty_database_def)
  have lo: "learning_objectives two_quiz_objectives =
      Some [(''obj-1'', first_quiz_objective), (''obj-3'', second_quiz_objective)]"
    by (simp add: two_quiz_objectives_def empty_user_data_def)
  have ser: "json_serializable two_quiz_objectives"
    by (simp add: json_serializable_def lo get_default_def fractions_quiz_def
        first_quiz_objective_def second_quiz_objective_def)
  have sj: "save_user_progress env_ok json_store ''bob'' two_quiz_objectives =
      (True, snd (save_user_progress env_ok json_store ''bob'' two_quiz_objectives))"
    by (simp add: save_user_progress_json [OF js io ser])
  have c1: "fst (save_user_progress env_ok json_store ''bob'' two_quiz_objectives)"
    by (simp add: save_user_progress_json [OF js io ser])
  have c3: "learning_objectives (load_user_progress env_ok
        (snd (save_user_progress env_ok json_store ''bob'' two_quiz_objectives)) ''bob'')
       = Some [(''obj-1'', first_quiz_objective), (''obj-3'', second_quiz_objective)]"
    using js io
    by (simp add: save_user_progress_json [OF js io ser] load_user_progress_def
        load_from_json_def lo)
  have c4: "quizzes first_quiz_objective = Some [(''bob_Fractions_quiz'', fractions_quiz 0.5)]"
    by (simp add: first_quiz_objective_def)
  define d2 where "d2 = fold (save_objective_rows env_ok ''bob'')
      [(''obj-1'', first_quiz_objective), (''obj-3'', second_quiz_objective)] (db sqlite_store)"
  have sv: "save_user_progress env_ok sqlite_store ''bob'' two_quiz_objectives
              = (True, sqlite_store\<lparr>db := d2\<rparr>)"
    using sq io ser
    by (simp add: save_user_progress_def save_to_sqlite_def Let_def lo d2_def)
       (simp add: sqlite_store_def empty_database_def)
  have c2: "fst (save_user_progress env_ok sqlite_store ''bob'' two_quiz_objectives)"
    by (simp add: sv)
  have us: "users d2 = [\<lparr>users_user_id = ''bob'', users_created_at = ''2024-03-01T08:00:00''\<rparr>]"
    by (simp add: d2_def save_objective_rows_objectives sqlite_store_def empty_database_def)
  have los: "learning_objectives_tbl d2 =
      [objective_row env_ok ''bob'' ''obj-1'' first_quiz_objective,
       objective_row env_ok ''bob'' ''obj-3'' second_quiz_objective]"
    by (simp add: d2_def save_objective_rows_objectives insert_or_replace_def tbl
        objective_row_def)
  have sp: "study_plans d2 =
      [plan_row env_ok ''obj-1'' algebra_plan, plan_row env_ok ''obj-3'' algebra_plan]"
    by (simp add: d2_def save_objective_rows_def save_quiz_row_def save_progress_row_def
        insert_or_replace_def Let_def first_quiz_objective_def second_quiz_objective_def
        bob_objective_def later_objective_def study_plan_data_def plan_row_def
        fractions_quiz_def get_default_def sqlite_store_def empty_database_def
        split: option.splits)
  have tp: "topic_progress_tbl d2 =
      [\<lparr>tp_progress_id = ''bob_obj-1_Fractions'', tp_user_id = ''bob'',
        tp_objective_id = ''obj-1'', tp_topic = ''Fractions'', tp_mastery_level = 0.5,
        tp_completed = False, tp_last_studied = ''2024-03-02T09:00:00.000001''\<rparr>,
       \<lparr>tp_progress_id = ''bob_obj-3_Fractions'', tp_user_id = ''bob'',
        tp_objective_id = ''obj-3'', tp_topic = ''Fractions'', tp_mastery_level = 0.9,
        tp_completed = True, tp_last_studied = ''2024-03-02T09:00:00.000001''\<rparr>]"
    by (simp add: d2_def save_objective_rows_def save_quiz_row_def save_progress_row_def
        insert_or_replace_def Let_def first_quiz_objective_def second_quiz_objective_def
        bob_objective_def later_objective_def
        fractions_quiz_def get_default_def sqlite_store_def empty_database_def env_ok_def
        split: option.splits)
  have qz: "quizzes_tbl d2 =
      [\<lparr>qz_quiz_id = ''bob_Fractions_quiz'', qz_user_id = ''bob'', qz_objective_id = ''obj-3'',
        qz_topic = ''Fractions'', qz_questions = [],
        qz_created_at = ''2024-03-02T09:00:00.000001''\<rparr>]"
    by (simp add: d2_def save_objective_rows_def save_quiz_row_def save_progress_row_def
        insert_or_replace_def Let_def first_quiz_objective_def second_quiz_objective_def
        bob_objective_def later_objective_def
        fractions_quiz_def get_default_def sqlite_store_def empty_database_def env_ok_def
        split: option.splits)
  have qr: "quiz_results_tbl d2 =
      [\<lparr>qr_result_id = ''bob_Fractions_quiz_result'', qr_quiz_id = ''bob_Fractions_quiz'',
        qr_user_id = ''bob'', qr_answers = [(''0'', ''1/2'')], qr_score = 0.9,
        qr_feedback = [], qr_created_at = ''2024-03-02T09:00:00.000001''\<rparr>]"
    by (simp add: d2_def save_objective_rows_def save_quiz_row_def save_progress_row_def
        insert_or_replace_def Let_def first_quiz_objective_def second_quiz_objective_def
        bob_objective_def later_objective_def
        fractions_quiz_def get_default_def sqlite_store_def empty_database_def env_ok_def
        split: option.splits)
  have ld: "learning_objectives (load_user_progress env_ok (sqlite_store\<lparr>db := d2\<rparr>) ''bob'') =
       Some [load_objective_doc d2 ''bob''
               (objective_row env_ok ''bob'' ''obj-1'' first_quiz_objective),
             load_objective_doc d2 ''bob''
               (objective_row env_ok ''bob'' ''obj-3'' second_quiz_objective)]"
    using sq io
    by (simp add: load_user_progress_def load_from_sqlite_def us los dict_of_def
        load_objective_doc_def Let_def objective_row_def)
  have o1: "load_objective_doc d2 ''bob''
               (objective_row env_ok ''bob'' ''obj-1'' first_quiz_objective) =
      (''obj-1'', first_quiz_objective
                 \<lparr>study_plan_doc := Some ((study_plan_data (Some algebra_plan))
                    \<lparr>plan_created_at := Some ''2024-03-02T09:00:00.000001'',
                     plan_updated_at := Some ''2024-03-02T09:00:00.000001''\<rparr>),
                  topic_progress := Some [(''Fractions'',
                    \<lparr>mastery_level = Some 0.5, completed = Some False,
                     last_studied = Some ''2024-03-02T09:00:00.000001''\<rparr>)],
                  quizzes := Some []\<rparr>)"
    by (simp add: load_objective_doc_def Let_def objective_row_def sp tp qz qr dict_of_def
        load_quiz_doc_def load_progress_doc_def plan_row_def study_plan_data_def
        first_quiz_objective_def bob_objective_def get_default_def env_ok_def)
  have o3: "load_objective_doc d2 ''bob''
               (objective_row env_ok ''bob'' ''obj-3'' second_quiz_objective) =
      (''obj-3'', second_quiz_objective
                 \<lparr>study_plan_doc := Some ((study_plan_data (Some algebra_plan))
                    \<lparr>plan_created_at := Some ''2024-03-02T09:00:00.000001'',
                     plan_updated_at := Some ''2024-03-02T09:00:00.000001''\<rparr>),
                  topic_progress := Some [(''Fractions'',
                    \<lparr>mastery_level = Some 0.9, completed = Some True,
                     last_studied = Some ''2024-03-02T09:00:00.000001''\<rparr>)],
                  quizzes := Some [(''bob_Fractions_quiz'',
                    \<lparr>quiz_topic = Some ''Fractions'', quiz_questions = Some [],
                     quiz_time_limit = None,
                     quiz_created_at = Some ''2024-03-02T09:00:00.000001'',
                     results = Some \<lparr>answers = Some [(''0'', ''1/2'')], score = Some 0.9,
                       feedback = Some [],
                       results_created_at = Some ''2024-03-02T09:00:00.000001''\<rparr>\<rparr>)]\<rparr>)"
    by (simp add: load_objective_doc_def Let_def objective_row_def sp tp qz qr dict_of_def
        load_quiz_doc_def load_progress_doc_def plan_row_def study_plan_data_def
        second_quiz_objective_def later_objective_def bob_objective_def get_default_def
        env_ok_def)
  have c5: "learning_objectives (load_user_progress env_ok
        (snd (save_user_progress env_ok sqlite_store ''bob'' two_quiz_objectives)) ''bob'')
       = Some [(''obj-1'', first_quiz_objective
                 \<lparr>study_plan_doc := Some ((study_plan_data (Some algebra_plan))
                    \<lparr>plan_created_at := Some ''2024-03-02T09:00:00.000001'',
                     plan_updated_at := Some ''2024-03-02T09:00:00.000001''\<rparr>),
                  topic_progress := Some [(''Fractions'',
                    \<lparr>mastery_level = Some 0.5, completed = Some False,
                     last_studied = Some ''2024-03-02T09:00:00.000001''\<rparr>)],
                  quizzes := Some []\<rparr>),
               (''obj-3'', second_quiz_objective
                 \<lparr>study_plan_doc := Some ((study_plan_data (Some algebra_plan))
                    \<lparr>plan_created_at := Some ''2024-03-02T09:00:00.000001'',
                     plan_updated_at := Some ''2024-03-02T09:00:00.000001''\<rparr>),
                  topic_progress := Some [(''Fractions'',
                    \<lparr>mastery_level = Some 0.9, completed = Some True,
                     last_studied = Some ''2024-03-02T09:00:00.000001''\<rparr>)],
                  quizzes := Some [(''bob_Fractions_quiz'',
                    \<lparr>quiz_topic = Some ''Fractions'', quiz_questions = Some [],
                     quiz_time_limit = None,
                     quiz_created_at = Some ''2024-03-02T09:00:00.000001'',
                     results = Some \<lparr>answers = Some [(''0'', ''1/2'')], score = Some 0.9,
                       feedback = Some [],
                       results_created_at = Some ''2024-03-02T09:00:00.000001''\<rparr>\<rparr>)]\<rparr>)]"
    unfolding sv snd_conv ld o1 o3 ..
  have ts: "created_at first_quiz_objective = Some ''2024-03-01T08:00:00''"
    "created_at second_quiz_objective = Some ''2024-03-05T08:00:00''"
    "(''obj-1'' :: string) \<noteq> ''obj-3''"
    "(''2024-03-01T08:00:00'' :: string) < ''2024-03-05T08:00:00''"
    by (simp_all add: first_quiz_objective_def second_quiz_objective_def bob_objective_def
        later_objective_def)
  have hj: "use_sqlite json_store \<longrightarrow>
           (\<forall>r \<in> set (learning_objectives_tbl (db json_store)).
              lo_user_id r = ''bob'' \<longrightarrow> lo_objective_id r = ''obj-1'' \<or> lo_objective_id r = ''obj-3'')"
    using js by simp
  have hq: "use_sqlite sqlite_store \<longrightarrow>
           (\<forall>r \<in> set (learning_objectives_tbl (db sqlite_store)).
              lo_user_id r = ''bob'' \<longrightarrow> lo_objective_id r = ''obj-1'' \<or> lo_objective_id r = ''obj-3'')"
    using tbl by simp
  have sq': "save_user_progress env_ok sqlite_store ''bob'' two_quiz_objectives =
      (True, snd (save_user_progress env_ok sqlite_store ''bob'' two_quiz_objectives))"
    by (simp add: sv)
  from two_objectives_ids_and_selection [OF lo ts(3) ts(1,2) sj io hj] ts(4)
  have c6: "objective_id (snd (load_progress env_ok (new_TutorContext ''bob''
        (snd (save_user_progress env_ok json_store ''bob'' two_quiz_objectives)))))
       = Some ''obj-3''"
    by auto
  from two_objectives_ids_and_selection [OF lo ts(3) ts(1,2) sq' io hq] ts(4)
  have c7: "objective_id (snd (load_progress env_ok (new_TutorContext ''bob''
        (snd (save_user_progress env_ok sqlite_store ''bob'' two_quiz_objectives)))))
       = Some ''obj-3''"
    by auto
  from c1 c2 c3 c4 c5 c6 c7 show ?thesis
    by (intro conjI)
qed

subsection \<open>Recording a study plan\<close>








text \<open>With a quiz that has a question among the session's quiz results the plan is
  not persisted, whatever the plan and the store: \<^verbatim>\<open>save_study_plan\<close> answers that the
  save failed.\<close>

lemma save_study_plan_fails_on_quiz_question:
  assumes "quiz_results ctx = [(t, \<lparr>entry_quiz = Some q, entry_user_answers = ua\<rparr>)]"
    and "questions q \<noteq> []"
  shows "\<not> fst (save_study_plan e ctx objective ts path est prereqs)"
proof -
  define ctx2 where "ctx2 = ctx\<lparr>learning_objective := Some objective, study_plan := Some
      \<lparr>topics = ts, learning_path = path, estimated_time = Some est,
       prerequisites = Some (get_default prereqs [])\<rparr>\<rparr>"
  have sp: "save_study_plan e ctx objective ts path est prereqs = save_progress e ctx2"
    by (simp add: save_study_plan_def ctx2_def Let_def)
  have "quiz_results ctx2 = [(t, \<lparr>entry_quiz = Some q, entry_user_answers = ua\<rparr>)]"
    using assms(1) by (simp add: ctx2_def)
  from save_progress_fails_on_quiz_question [OF this assms(2)] show ?thesis
    by (simp add: sp)
qed


section \<open>Mastery policy: properties\<close>

text \<open>
  Claim C3. \<^verbatim>\<open>save_quiz_results\<close> decides \<^verbatim>\<open>completed\<close> as \<^verbatim>\<open>score >= 0.7\<close>: the flag is
  true exactly for scores of at least 0.7, so it is false for 0.0 and 0.69 and true for
  0.7 and 1.0. The decision is what reaches the session: the topic's mastery level is
  the score, and the topic is among the completed topics afterwards exactly when the
  flag is true or it was there before.
\<close>

theorem save_quiz_results_completed:
  "fst (save_quiz_results e ctx t s fb) = (s \<ge> 0.7)
   \<and> (t \<in> set (completed_topics (snd (save_quiz_results e ctx t s fb)))
        \<longleftrightarrow> s \<ge> 0.7 \<or> t \<in> set (completed_topics ctx))
   \<and> mastery_levels (snd (save_quiz_results e ctx t s fb)) t = Some s
   \<and> \<not> fst (save_quiz_results e ctx t 0 fb)
   \<and> \<not> fst (save_quiz_results e ctx t 0.69 fb)
   \<and> fst (save_quiz_results e ctx t 0.7 fb)
   \<and> fst (save_quiz_results e ctx t 1 fb)"
  by (auto simp: save_quiz_results_def update_mastery_level_def Let_def)

section \<open>Handoff orchestration: properties\<close>

text \<open>
  Claim C7. When the initial invocation names no next agent the chain ends there: the
  runner is not called again (the context is returned as it was), and the results are
  the initial result with an empty list of handoff results.
\<close>

theorem chain_without_handoff:
  assumes "handoff_info initial = None"
  shows "process_agent_handoff_chain run max_turns (Some initial) ctx
           = Some (Inr \<lparr>initial_result = Some initial, handoff_results = []\<rparr>, ctx)"
  using assms
  by (simp add: process_agent_handoff_chain_def handoff_loop.simps)

theorem chain_without_handoff_witness:
  "handoff_info final_plan_result = None
   \<and> process_agent_handoff_chain ping_pong 30 (Some final_plan_result) bob_session
       = Some (Inr \<lparr>initial_result = Some final_plan_result, handoff_results = []\<rparr>,
               bob_session)"
  using chain_without_handoff [of final_plan_result ping_pong 30 bob_session]
  by (simp add: final_plan_result_def)

lemma cycle_guard:
  assumes "handoff_info cur = Some h" and "target_agent h \<in> seen"
  shows "handoff_loop run mt (Some cur) seen acc ctx = Some (Inr acc, ctx)"
  using assms by (subst handoff_loop.simps) simp

text \<open>The loop and its passes: where \<open>chain_reaches\<close> stands after handing over to
  \<open>agents\<close>, the loop that started with the empty set stands with the set of exactly
  these agents and with their results.\<close>

lemma chain_reaches_loop:
  assumes "chain_reaches run mt initial ctx0 agents rs cur ctx"
  shows "handoff_loop run mt (Some initial) {} [] ctx0
           = handoff_loop run mt (Some cur) (set agents) rs ctx"
  using assms
proof (induction rule: chain_reaches.induct)
  case start
  show ?case by simp
next
  case (hop agents rs cur ctx h next_result ctx')
  have "handoff_loop run mt (Some cur) (set agents) rs ctx
          = handoff_loop run mt (Some next_result) (insert (target_agent h) (set agents))
              (rs @ [next_result]) ctx'"
    using hop.hyps(2,3,4) by (subst handoff_loop.simps) simp
  with hop.IH show ?case
    by simp
qed

lemma chain_reaches_once:
  assumes "chain_reaches run mt initial ctx0 agents rs cur ctx"
  shows "length rs = length agents \<and> distinct agents"
  using assms by (induction rule: chain_reaches.induct) simp_all

lemma chain_halts_at_seen_agent:
  assumes "chain_reaches run mt initial ctx0 agents rs cur ctx"
    and "handoff_info cur = Some h" and "target_agent h \<in> set agents"
  shows "process_agent_handoff_chain run mt (Some initial) ctx0
           = Some (Inr \<lparr>initial_result = Some initial, handoff_results = rs\<rparr>, ctx)"
  unfolding process_agent_handoff_chain_def chain_reaches_loop [OF assms(1)]
    cycle_guard [OF assms(2,3)]
  by simp

text \<open>The chain A, B, A: the initial result, produced by A, names B; B names A, which
  is not in the set, so that A runs a second time; the chain stops when this second A
  names B or itself.\<close>

lemma chain_A_B_A:
  assumes "handoff_info r0 = Some hB"
    and "run (target_agent hB) (handoff_message hB) mt c0 = (Inr rB, c1)"
    and "handoff_info rB = Some hA" and "target_agent hA \<noteq> target_agent hB"
    and "run (target_agent hA) (handoff_message hA) mt c1 = (Inr rA, c2)"
    and "handoff_info rA = Some h"
    and "target_agent h = target_agent hB \<or> target_agent h = target_agent hA"
  shows "process_agent_handoff_chain run mt (Some r0) c0
           = Some (Inr \<lparr>initial_result = Some r0, handoff_results = [rB, rA]\<rparr>, c2)"
proof -
  have s0: "chain_reaches run mt r0 c0 [] [] r0 c0"
    by (rule chain_reaches.start)
  have "chain_reaches run mt r0 c0 ([] @ [target_agent hB]) ([] @ [rB]) rB c1"
    using s0 assms(1) _ assms(2) by (rule chain_reaches.hop) simp
  then have s1: "chain_reaches run mt r0 c0 [target_agent hB] [rB] rB c1"
    by simp
  have "chain_reaches run mt r0 c0 ([target_agent hB] @ [target_agent hA]) ([rB] @ [rA]) rA c2"
    using s1 assms(3) _ assms(5) by (rule chain_reaches.hop) (simp add: assms(4))
  then have s2: "chain_reaches run mt r0 c0 [target_agent hB, target_agent hA] [rB, rA] rA c2"
    by simp
  from assms(7) have "target_agent h \<in> set [target_agent hB, target_agent hA]"
    by auto
  with s2 assms(6) show ?thesis
    by (rule chain_halts_at_seen_agent)
qed

text \<open>What \<^verbatim>\<open>complete_learning_objective\<close> reports once the planner has run and the chain
  has returned.\<close>

lemma complete_after_chain:
  assumes "complete_learning_objective_setup ctxS = Inr c1"
    and "run planner (prompt c1) mt c1 = (Inr initial, ctx0)"
    and "process_agent_handoff_chain run mt (Some initial) ctx0 = Some (Inr res, ctx)"
  shows "complete_learning_objective run planner prompt e mt ctxS =
           Some (Inr \<lparr>final_results = res,
                      learning_completed =
                        str_contains ''LEARNING_COMPLETE'' (str_all_results res)\<rparr>,
                 if str_contains ''LEARNING_COMPLETE'' (str_all_results res)
                 then mark_learning_complete e ctx else ctx)"
  using assms by (simp add: complete_learning_objective_def Let_def)

lemma ping_pong_0: "ping_pong 0 i m c = (Inr first_result, c)"
  by (simp add: ping_pong_def first_result_def)

lemma ping_pong_1: "ping_pong (Suc 0) i m c = (Inr second_result, c)"
  by (simp add: ping_pong_def second_result_def)

lemma ping_pong_facts:
  "handoff_info first_result = Some \<lparr>target_agent = 1, handoff_message = ''continue''\<rparr>"
  "handoff_info second_result = Some \<lparr>target_agent = 0, handoff_message = ''continue''\<rparr>"
  "ping_pong (target_agent \<lparr>target_agent = 1 :: nat, handoff_message = ''continue''\<rparr>)
     (handoff_message \<lparr>target_agent = 1 :: nat, handoff_message = ''continue''\<rparr>) 30 c
     = (Inr second_result, c)"
  "ping_pong (target_agent \<lparr>target_agent = 0 :: nat, handoff_message = ''continue''\<rparr>)
     (handoff_message \<lparr>target_agent = 0 :: nat, handoff_message = ''continue''\<rparr>) 30 c
     = (Inr first_result, c)"
  "target_agent \<lparr>target_agent = 0 :: nat, handoff_message = ''continue''\<rparr>
     \<noteq> target_agent \<lparr>target_agent = 1 :: nat, handoff_message = ''continue''\<rparr>"
  by (simp_all add: first_result_def second_result_def ping_pong_0 ping_pong_1)

lemma chain_reaches_ping_pong:
  "chain_reaches ping_pong 30 first_result c [1, 0] [second_result, first_result]
     first_result c"
proof -
  have s0: "chain_reaches ping_pong 30 first_result c [] [] first_result c"
    by (rule chain_reaches.start)
  have "chain_reaches ping_pong 30 first_result c
          ([] @ [target_agent \<lparr>target_agent = 1 :: nat, handoff_message = ''continue''\<rparr>])
          ([] @ [second_result]) second_result c"
    using s0 ping_pong_facts(1) _ ping_pong_facts(3) by (rule chain_reaches.hop) simp
  then have s1: "chain_reaches ping_pong 30 first_result c [1] [second_result] second_result c"
    by simp
  have "chain_reaches ping_pong 30 first_result c
          ([1] @ [target_agent \<lparr>target_agent = 0 :: nat, handoff_message = ''continue''\<rparr>])
          ([second_result] @ [first_result]) first_result c"
    using s1 ping_pong_facts(2) _ ping_pong_facts(4) by (rule chain_reaches.hop) simp
  then show ?thesis
    by simp
qed

lemma bob_session_setup: "complete_learning_objective_setup bob_session = Inr bob_session"
  by (simp add: complete_learning_objective_setup_def bob_session_def algebra_plan_def
      new_TutorContext_def truthy_def)

lemma ping_pong_marker:
  "str_contains ''LEARNING_COMPLETE''
      (str_all_results \<lparr>initial_result = Some first_result,
         handoff_results = [second_result, first_result]\<rparr>)"
  by (simp add: str_all_results_def first_result_def second_result_def)

lemma mark_bob_session: "mark_learning_complete env_ok bob_session = bob_session"
  by (simp add: mark_learning_complete_def bob_session_def new_TutorContext_def truthy_def)

text \<open>
  Claim C2, as amended. \<^verbatim>\<open>process_agent_handoff_chain\<close> starts from the initial result
  with an empty set of agents and records each agent it hands over to; the agent that
  produced the initial result is not recorded. After it has handed over to the agents
  \<open>agents\<close> (each of them once) and collected their results \<open>rs\<close>, a result that names
  one of \<open>agents\<close> as the next agent ends the chain at once: the agent is not run again,
  and the chain returns the initial result, the results \<open>rs\<close> and the context as they
  stand. The flag \<^verbatim>\<open>completed\<close> of the run does not depend on how the chain ended: it is
  true exactly when the text of the results contains \<^verbatim>\<open>LEARNING_COMPLETE\<close>. In
  particular, in a chain A, B, A (the initial result, of A, names B, and B names A) the
  agent A is run a second time, and the chain stops with the results of B and of the
  second A when the second A names B or itself.
\<close>

theorem cycle_guard_halts_chain:
  assumes "chain_reaches run mt initial ctx0 agents rs cur ctx"
    and "handoff_info cur = Some h" and "target_agent h \<in> set agents"
  shows "process_agent_handoff_chain run mt (Some initial) ctx0
           = Some (Inr \<lparr>initial_result = Some initial, handoff_results = rs\<rparr>, ctx)
         \<and> length rs = length agents \<and> distinct agents
         \<and> (complete_learning_objective_setup ctxS = Inr c1
              \<and> run planner (prompt c1) mt c1 = (Inr initial, ctx0)
            \<longrightarrow> complete_learning_objective run planner prompt e mt ctxS =
                  Some (Inr \<lparr>final_results =
                               \<lparr>initial_result = Some initial, handoff_results = rs\<rparr>,
                             learning_completed =
                               str_contains ''LEARNING_COMPLETE'' (str_all_results
                                 \<lparr>initial_result = Some initial, handoff_results = rs\<rparr>)\<rparr>,
                        if str_contains ''LEARNING_COMPLETE'' (str_all_results
                             \<lparr>initial_result = Some initial, handoff_results = rs\<rparr>)
                        then mark_learning_complete e ctx else ctx))
         \<and> (\<forall>r0 c0 hB rB cB hA rA cA hN.
               handoff_info r0 = Some hB
               \<and> run (target_agent hB) (handoff_message hB) mt c0 = (Inr rB, cB)
               \<and> handoff_info rB = Some hA \<and> target_agent hA \<noteq> target_agent hB
               \<and> run (target_agent hA) (handoff_message hA) mt cB = (Inr rA, cA)
               \<and> handoff_info rA = Some hN
               \<and> (target_agent hN = target_agent hB \<or> target_agent hN = target_agent hA)
               \<longrightarrow> process_agent_handoff_chain run mt (Some r0) c0
                     = Some (Inr \<lparr>initial_result = Some r0, handoff_results = [rB, rA]\<rparr>, cA))"
proof (intro conjI allI impI)
  show halt: "process_agent_handoff_chain run mt (Some initial) ctx0
           = Some (Inr \<lparr>initial_result = Some initial, handoff_results = rs\<rparr>, ctx)"
    using assms by (rule chain_halts_at_seen_agent)
  show "length rs = length agents" and "distinct agents"
    using chain_reaches_once [OF assms(1)] by simp_all
  show "complete_learning_objective run planner prompt e mt ctxS =
          Some (Inr \<lparr>final_results =
                       \<lparr>initial_result = Some initial, handoff_results = rs\<rparr>,
                     learning_completed =
                       str_contains ''LEARNING_COMPLETE'' (str_all_results
                         \<lparr>initial_result = Some initial, handoff_results = rs\<rparr>)\<rparr>,
                if str_contains ''LEARNING_COMPLETE'' (str_all_results
                     \<lparr>initial_result = Some initial, handoff_results = rs\<rparr>)
                then mark_learning_complete e ctx else ctx)"
    if "complete_learning_objective_setup ctxS = Inr c1
          \<and> run planner (prompt c1) mt c1 = (Inr initial, ctx0)"
    by (rule complete_after_chain [where prompt = prompt and run = run and planner = planner,
          OF conjunct1 [OF that] conjunct2 [OF that] halt])
  show "process_agent_handoff_chain run mt (Some r0) c0
          = Some (Inr \<lparr>initial_result = Some r0, handoff_results = [rB, rA]\<rparr>, cA)"
    if "handoff_info r0 = Some hB
          \<and> run (target_agent hB) (handoff_message hB) mt c0 = (Inr rB, cB)
          \<and> handoff_info rB = Some hA \<and> target_agent hA \<noteq> target_agent hB
          \<and> run (target_agent hA) (handoff_message hA) mt cB = (Inr rA, cA)
          \<and> handoff_info rA = Some hN
          \<and> (target_agent hN = target_agent hB \<or> target_agent hN = target_agent hA)"
    for r0 c0 hB rB cB hA rA cA hN
  proof -
    from that have f: "handoff_info r0 = Some hB"
      "run (target_agent hB) (handoff_message hB) mt c0 = (Inr rB, cB)"
      "handoff_info rB = Some hA" "target_agent hA \<noteq> target_agent hB"
      "run (target_agent hA) (handoff_message hA) mt cB = (Inr rA, cA)"
      "handoff_info rA = Some hN"
      "target_agent hN = target_agent hB \<or> target_agent hN = target_agent hA"
      by simp_all
    from f show ?thesis
      by (rule chain_A_B_A)
  qed
qed

text \<open>The chain A, B, A: agent \<open>0\<close> (A) produces the initial result and names agent \<open>1\<close>
  (B), B names A, and the second A names B again, where the guard stops the chain.\<close>

theorem cycle_guard_halts_chain_witness:
  "chain_reaches ping_pong 30 first_result bob_session [1, 0] [second_result, first_result]
     first_result bob_session
   \<and> handoff_info first_result = Some \<lparr>target_agent = 1, handoff_message = ''continue''\<rparr>
   \<and> target_agent \<lparr>target_agent = 1 :: nat, handoff_message = ''continue''\<rparr> \<in> set [1, 0]
   \<and> complete_learning_objective_setup bob_session = Inr bob_session
   \<and> ping_pong 0 ''start'' 30 bob_session = (Inr first_result, bob_session)
   \<and> ping_pong 1 ''continue'' 30 bob_session = (Inr second_result, bob_session)
   \<and> handoff_info second_result = Some \<lparr>target_agent = 0, handoff_message = ''continue''\<rparr>
   \<and> ping_pong 0 ''continue'' 30 bob_session = (Inr first_result, bob_session)
   \<and> process_agent_handoff_chain ping_pong 30 (Some first_result) bob_session
       = Some (Inr \<lparr>initial_result = Some first_result,
                    handoff_results = [second_result, first_result]\<rparr>, bob_session)
   \<and> length [second_result, first_result] = length [1 :: nat, 0]
   \<and> distinct [1 :: nat, 0]
   \<and> complete_learning_objective ping_pong 0 (\<lambda>c. ''start'') env_ok 30 bob_session
       = Some (Inr \<lparr>final_results = \<lparr>initial_result = Some first_result,
                       handoff_results = [second_result, first_result]\<rparr>,
                     learning_completed = True\<rparr>, bob_session)"
proof -
  have m: "target_agent \<lparr>target_agent = 1 :: nat, handoff_message = ''continue''\<rparr>
             \<in> set [1, 0]"
    by simp
  have p0: "ping_pong 0 ''start'' 30 bob_session = (Inr first_result, bob_session)"
    "ping_pong 0 ''continue'' 30 bob_session = (Inr first_result, bob_session)"
    by (rule ping_pong_0)+
  have p1: "ping_pong 1 ''continue'' 30 bob_session = (Inr second_result, bob_session)"
    using ping_pong_1 [of "''continue''" 30 bob_session] by simp
  note th = cycle_guard_halts_chain [OF chain_reaches_ping_pong [of bob_session]
      ping_pong_facts(1) m, where ctxS = bob_session and ?c1.0 = bob_session and planner = 0
        and prompt = "\<lambda>c. ''start''" and e = env_ok]
  from th have a: "process_agent_handoff_chain ping_pong 30 (Some first_result) bob_session
       = Some (Inr \<lparr>initial_result = Some first_result,
                    handoff_results = [second_result, first_result]\<rparr>, bob_session)"
    by (rule conjunct1)
  from th have b: "length [second_result, first_result] = length [1 :: nat, 0]"
    "distinct [1 :: nat, 0]"
    by blast+
  from th have "handoff_info first_result = Some hB
         \<and> ping_pong (target_agent hB) (handoff_message hB) 30 bob_session
             = (Inr second_result, bob_session)
         \<and> handoff_info second_result = Some hA \<and> target_agent hA \<noteq> target_agent hB
         \<and> ping_pong (target_agent hA) (handoff_message hA) 30 bob_session
             = (Inr first_result, bob_session)
         \<and> handoff_info first_result = Some hN
         \<and> (target_agent hN = target_agent hB \<or> target_agent hN = target_agent hA)
         \<longrightarrow> process_agent_handoff_chain ping_pong 30 (Some first_result) bob_session
               = Some (Inr \<lparr>initial_result = Some first_result,
                            handoff_results = [second_result, first_result]\<rparr>, bob_session)"
    for hB hA hN
    by blast
  from this [of "\<lparr>target_agent = 1, handoff_message = ''continue''\<rparr>"
      "\<lparr>target_agent = 0, handoff_message = ''continue''\<rparr>"
      "\<lparr>target_agent = 1, handoff_message = ''continue''\<rparr>"]
    ping_pong_facts
  have a4: "process_agent_handoff_chain ping_pong 30 (Some first_result) bob_session
       = Some (Inr \<lparr>initial_result = Some first_result,
                    handoff_results = [second_result, first_result]\<rparr>, bob_session)"
    by simp
  from th bob_session_setup p0(1)
  have "complete_learning_objective ping_pong 0 (\<lambda>c. ''start'') env_ok 30 bob_session =
          Some (Inr \<lparr>final_results =
                       \<lparr>initial_result = Some first_result,
                        handoff_results = [second_result, first_result]\<rparr>,
                     learning_completed =
                       str_contains ''LEARNING_COMPLETE'' (str_all_results
                         \<lparr>initial_result = Some first_result,
                          handoff_results = [second_result, first_result]\<rparr>)\<rparr>,
                if str_contains ''LEARNING_COMPLETE'' (str_all_results
                     \<lparr>initial_result = Some first_result,
                      handoff_results = [second_result, first_result]\<rparr>)
                then mark_learning_complete env_ok bob_session else bob_session)"
    by blast
  then have c: "complete_learning_objective ping_pong 0 (\<lambda>c. ''start'') env_ok 30 bob_session
       = Some (Inr \<lparr>final_results = \<lparr>initial_result = Some first_result,
                       handoff_results = [second_result, first_result]\<rparr>,
                     learning_completed = True\<rparr>, bob_session)"
    unfolding eqTrueI [OF ping_pong_marker] mark_bob_session by simp
  from chain_reaches_ping_pong [of bob_session] ping_pong_facts(1) m bob_session_setup
    p0(1) p1 ping_pong_facts(2) p0(2) a4 b c
  show ?thesis
    by (intro conjI)
qed

text \<open>
  The claim as stated fails: the chain A, B, A is stopped by the guard, and the run
  reports \<^verbatim>\<open>completed = True\<close>, because the first result carries the completion marker.
\<close>

theorem cycle_guard_halts_chain_counterexample:
  "process_agent_handoff_chain ping_pong 30 (Some first_result) bob_session
     = Some (Inr \<lparr>initial_result = Some first_result,
                  handoff_results = [second_result, first_result]\<rparr>, bob_session)
   \<and> handoff_info (last [second_result, first_result])
       = Some \<lparr>target_agent = 1, handoff_message = ''continue''\<rparr>
   \<and> complete_learning_objective ping_pong 0 (\<lambda>c. ''start'') env_ok 30 bob_session
       = Some (Inr \<lparr>final_results = \<lparr>initial_result = Some first_result,
                       handoff_results = [second_result, first_result]\<rparr>,
                     learning_completed = True\<rparr>, bob_session)"
proof -
  have m: "target_agent \<lparr>target_agent = 1 :: nat, handoff_message = ''continue''\<rparr>
             \<in> set [1, 0]"
    by simp
  have a: "process_agent_handoff_chain ping_pong 30 (Some first_result) bob_session
     = Some (Inr \<lparr>initial_result = Some first_result,
                  handoff_results = [second_result, first_result]\<rparr>, bob_session)"
    using chain_reaches_ping_pong ping_pong_facts(1) m by (rule chain_halts_at_seen_agent)
  have b: "handoff_info (last [second_result, first_result])
       = Some \<lparr>target_agent = 1, handoff_message = ''continue''\<rparr>"
    by (simp add: first_result_def)
  have c: "complete_learning_objective ping_pong 0 (\<lambda>c. ''start'') env_ok 30 bob_session
       = Some (Inr \<lparr>final_results = \<lparr>initial_result = Some first_result,
                       handoff_results = [second_result, first_result]\<rparr>,
                     learning_completed = True\<rparr>, bob_session)"
    using complete_after_chain [where prompt = "\<lambda>c. ''start''" and run = ping_pong
        and planner = 0 and e = env_ok, OF bob_session_setup ping_pong_0 a]
    unfolding eqTrueI [OF ping_pong_marker] mark_bob_session by simp
  from a b c show ?thesis
    by (intro conjI)
qed

end
